theory Spec2Isabelle
  imports Main "HOL-Library.AList" "HOL-Library.Multiset"
begin

section \<open>Data model of the requirement resolver\<close>

text \<open>
  Embedding of \<open>pkg/controller/operators/olm/requirements.go\<close>. Status reasons are
  Go strings; the named constants are those of the \<open>v1alpha1\<close> API package, whose values
  coincide with the string literals the source itself writes in the API-service loop.
\<close>

type_synonym StatusReason = string

definition RequirementStatusReasonPresent :: StatusReason where
  "RequirementStatusReasonPresent = ''Present''"

definition RequirementStatusReasonNotPresent :: StatusReason where
  "RequirementStatusReasonNotPresent = ''NotPresent''"

definition RequirementStatusReasonPresentNotSatisfied :: StatusReason where
  "RequirementStatusReasonPresentNotSatisfied = ''PresentNotSatisfied''"

definition DependentStatusReasonSatisfied :: StatusReason where
  "DependentStatusReasonSatisfied = ''Satisfied''"

definition DependentStatusReasonNotSatisfied :: StatusReason where
  "DependentStatusReasonNotSatisfied = ''NotSatisfied''"

text \<open>\<open>v1alpha1.DependentStatus\<close>; the field names carry a prefix because
  \<open>RequirementStatus\<close> has fields of the same names.\<close>

record DependentStatus =
  depGroup :: string
  depVersion :: string
  depKind :: string
  depStatus :: StatusReason
  depUUID :: string
  depMessage :: string

record RequirementStatus =
  Group :: string
  Version :: string
  Kind :: string
  Name :: string
  Status :: StatusReason
  Message :: string
  UUID :: string
  Dependents :: "DependentStatus list"

text \<open>The zero value of the Go struct: what \<open>make([]RequirementStatus, n)\<close> fills
  its \<open>n\<close> slots with.\<close>

definition zeroRequirementStatus :: RequirementStatus where
  "zeroRequirementStatus =
     \<lparr>Group = [], Version = [], Kind = [], Name = [], Status = [], Message = [],
      UUID = [], Dependents = []\<rparr>"

datatype error =
    Error string
  | GroupVersionKindNotFoundError string string string
  | NotFound string string

text \<open>Object metadata, read through the accessors the source calls.\<close>

record ObjectMeta =
  GetName :: string
  GetNamespace :: string
  GetLabels :: "string \<rightharpoonup> string"
  GetUID :: string

record APIService = ObjectMeta +
  APIServiceConditions :: "(string \<times> string) list"

type_synonym ServiceAccount = ObjectMeta

record PolicyRule =
  Verbs :: "string list"
  APIGroups :: "string list"
  Resources :: "string list"
  ResourceNames :: "string list"
  NonResourceURLs :: "string list"

record CRDDescription =
  CRD_Name :: string

record APIServiceDescription =
  API_Name :: string
  API_Group :: string
  API_Version :: string
  API_Kind :: string

record StrategyDeploymentPermissions =
  ServiceAccountName :: string
  Rules :: "PolicyRule list"

record StrategyDetailsDeployment =
  Permissions :: "StrategyDeploymentPermissions list"
  ClusterPermissions :: "StrategyDeploymentPermissions list"

text \<open>The \<open>install.Strategy\<close> interface value: the deployment variant the type
  assertion accepts, or any other implementation.\<close>

datatype Strategy = Deployment StrategyDetailsDeployment | OtherStrategy

record NamedInstallStrategy =
  StrategyName :: string
  StrategySpecRaw :: string

record ClusterServiceVersion = ObjectMeta +
  GetAllCRDDescriptions :: "CRDDescription list"
  GetAllAPIServiceDescriptions :: "APIServiceDescription list"
  InstallStrategy :: NamedInstallStrategy

record APIResource =
  APIResource_Kind :: string

record APIResourceList =
  GroupVersion :: string
  APIResources :: "APIResource list"

text \<open>
  The receiver \<open>a *Operator\<close> together with the package-level functions the two
  functions call. Each field is one external call, read as a function of its arguments:
  the cluster is a snapshot for the duration of one evaluation pass. A Go result
  \<open>(x, err)\<close> whose \<open>x\<close> is only read when \<open>err == nil\<close> is a sum, \<open>Inl\<close> the error.
\<close>

record Operator =
  GetCustomResourceDefinition :: "string \<Rightarrow> error + ObjectMeta"
  ServerResources :: "error + APIResourceList list"
  GetAPIService :: "string \<Rightarrow> error + APIService"
  isAPIServiceAvailable :: "APIService \<Rightarrow> bool"
  GetServiceAccount :: "string \<Rightarrow> string \<Rightarrow> error + ServiceAccount"
  RuleSatisfied :: "ClusterServiceVersion \<Rightarrow> ServiceAccount \<Rightarrow> string \<Rightarrow> PolicyRule
    \<Rightarrow> bool \<times> error option"
  json_Marshal :: "PolicyRule \<Rightarrow> error + string"
  UnmarshalStrategy :: "NamedInstallStrategy \<Rightarrow> error + Strategy"

definition NamespaceAll :: string where
  "NamespaceAll = []"

section \<open>requirementStatus and isGVKRegistered\<close>

text \<open>\<open>metav1.GroupVersion.String\<close>: the group is omitted when it is empty.\<close>

definition GroupVersion_String :: "string \<Rightarrow> string \<Rightarrow> string" where
  "GroupVersion_String grp version =
     (if grp = [] then version else grp @ ''/'' @ version)"

definition isGVKRegistered :: "Operator \<Rightarrow> string \<Rightarrow> string \<Rightarrow> string \<Rightarrow> error option" where
  "isGVKRegistered a grp version kind =
     (case ServerResources a of
        Inl err \<Rightarrow> Some err
      | Inr groups \<Rightarrow>
          if list_ex (\<lambda>g. GroupVersion g = GroupVersion_String grp version
                \<and> list_ex (\<lambda>r. APIResource_Kind r = kind) (APIResources g)) groups
          then None
          else Some (GroupVersionKindNotFoundError grp version kind))"

text \<open>Body of the first loop: one type-definition requirement.\<close>

definition crdStatus :: "Operator \<Rightarrow> CRDDescription \<Rightarrow> RequirementStatus" where
  "crdStatus a r =
     (let status = \<lparr>Group = ''apiextensions.k8s.io'', Version = ''v1beta1'',
            Kind = ''CustomResourceDefinition'', Name = CRD_Name r, Status = [],
            Message = [], UUID = [], Dependents = []\<rparr>
      in case GetCustomResourceDefinition a (CRD_Name r) of
           Inl err \<Rightarrow> status\<lparr>Status := RequirementStatusReasonNotPresent\<rparr>
         | Inr crd \<Rightarrow> status\<lparr>Status := RequirementStatusReasonPresent, UUID := GetUID crd\<rparr>)"

definition crdStep ::
  "Operator \<Rightarrow> CRDDescription \<Rightarrow> bool \<times> RequirementStatus list \<Rightarrow> bool \<times> RequirementStatus list"
where
  "crdStep a r = (\<lambda>(met, statuses).
     (case GetCustomResourceDefinition a (CRD_Name r) of
        Inl err \<Rightarrow> (False, statuses @ [crdStatus a r])
      | Inr crd \<Rightarrow> (met, statuses @ [crdStatus a r])))"

text \<open>Body of the second loop: one service-extension requirement. The source passes
  \<open>r.Name\<close> as the group of the discovery query.\<close>

definition apiStatus :: "Operator \<Rightarrow> APIServiceDescription \<Rightarrow> RequirementStatus" where
  "apiStatus a r =
     (let apiName = API_Version r @ ''.'' @ API_Name r;
          status = \<lparr>Group = ''apiregistration.k8s.io'', Version = ''v1'',
            Kind = ''APIService'', Name = apiName, Status = [],
            Message = [], UUID = [], Dependents = []\<rparr>
      in case isGVKRegistered a (API_Name r) (API_Version r) (API_Kind r) of
           Some err \<Rightarrow> status\<lparr>Status := ''NotPresent''\<rparr>
         | None \<Rightarrow>
            (case GetAPIService a apiName of
               Inl err \<Rightarrow> status\<lparr>Status := ''NotPresent''\<rparr>
             | Inr apiService \<Rightarrow>
                 if \<not> isAPIServiceAvailable a apiService
                 then status\<lparr>Status := ''NotPresent''\<rparr>
                 else status\<lparr>Status := ''Present'', UUID := GetUID apiService\<rparr>))"

definition apiStep ::
  "Operator \<Rightarrow> APIServiceDescription \<Rightarrow> bool \<times> RequirementStatus list
    \<Rightarrow> bool \<times> RequirementStatus list"
where
  "apiStep a r = (\<lambda>(met, statuses).
     (let apiName = API_Version r @ ''.'' @ API_Name r
      in case isGVKRegistered a (API_Name r) (API_Version r) (API_Kind r) of
           Some err \<Rightarrow> (False, statuses @ [apiStatus a r])
         | None \<Rightarrow>
            (case GetAPIService a apiName of
               Inl err \<Rightarrow> (False, statuses @ [apiStatus a r])
             | Inr apiService \<Rightarrow>
                 if \<not> isAPIServiceAvailable a apiService
                 then (False, statuses @ [apiStatus a r])
                 else (met, statuses @ [apiStatus a r]))))"

section \<open>permissionStatus\<close>

text \<open>
  \<open>statusesSet\<close> is a Go map from service-account name to status. It is kept as an
  association list with distinct keys: \<open>map_of\<close> is the lookup, \<open>AList.update\<close> the
  store (it replaces the value of a present key in place and puts a new key at the end,
  so the list also records the order in which the names were first met, which the Go
  map does not keep).
\<close>

type_synonym StatusesSet = "(string \<times> RequirementStatus) list"

definition newServiceAccountStatus :: "string \<Rightarrow> RequirementStatus" where
  "newServiceAccountStatus saName =
     \<lparr>Group = [], Version = ''v1'', Kind = ''ServiceAccount'', Name = saName,
      Status = RequirementStatusReasonPresent, Message = [], UUID = [], Dependents = []\<rparr>"

text \<open>The dependent the inner loop appends for one rule.\<close>

definition ruleDependent ::
  "Operator \<Rightarrow> ClusterServiceVersion \<Rightarrow> ServiceAccount \<Rightarrow> string \<Rightarrow> PolicyRule \<Rightarrow> DependentStatus"
where
  "ruleDependent a csv sa namespace rule =
     (let dependent = \<lparr>depGroup = ''rbac.authorization.k8s.io'', depVersion = ''v1beta1'',
            depKind = ''PolicyRule'', depStatus = [], depUUID = [], depMessage = []\<rparr>
      in case json_Marshal a rule of
           Inl err \<Rightarrow> dependent\<lparr>depStatus := DependentStatusReasonNotSatisfied,
                        depMessage := ''rule unmarshallable''\<rparr>
         | Inr marshalled \<Rightarrow>
            (case RuleSatisfied a csv sa namespace rule of
               (satisfied, err) \<Rightarrow>
                 if err \<noteq> None \<or> \<not> satisfied
                 then dependent\<lparr>depStatus := DependentStatusReasonNotSatisfied,
                        depMessage := ''rule raw:'' @ marshalled\<rparr>
                 else dependent\<lparr>depStatus := DependentStatusReasonSatisfied,
                        depMessage := ''rule raw:'' @ marshalled\<rparr>))"

text \<open>Body of the inner loop over \<open>perm.Rules\<close>, on the pair of the captured
  variable \<open>met\<close> and the local \<open>status\<close>.\<close>

definition checkRule ::
  "Operator \<Rightarrow> ClusterServiceVersion \<Rightarrow> ServiceAccount \<Rightarrow> string \<Rightarrow> PolicyRule
    \<Rightarrow> bool \<times> RequirementStatus \<Rightarrow> bool \<times> RequirementStatus"
where
  "checkRule a csv sa namespace rule = (\<lambda>(met, status).
     (case json_Marshal a rule of
        Inl err \<Rightarrow>
          (met, status\<lparr>Dependents := Dependents status @ [ruleDependent a csv sa namespace rule]\<rparr>)
      | Inr marshalled \<Rightarrow>
         (case RuleSatisfied a csv sa namespace rule of
            (satisfied, err) \<Rightarrow>
              if err \<noteq> None \<or> \<not> satisfied
              then (False, status\<lparr>Status := RequirementStatusReasonPresentNotSatisfied,
                      Dependents := Dependents status @ [ruleDependent a csv sa namespace rule]\<rparr>)
              else (met, status\<lparr>Dependents :=
                      Dependents status @ [ruleDependent a csv sa namespace rule]\<rparr>))))"

text \<open>Body of the loop over the grants of one list.\<close>

definition checkPermission ::
  "Operator \<Rightarrow> ClusterServiceVersion \<Rightarrow> string \<Rightarrow> StrategyDeploymentPermissions
    \<Rightarrow> bool \<times> StatusesSet \<Rightarrow> bool \<times> StatusesSet"
where
  "checkPermission a csv namespace perm = (\<lambda>(met, statusesSet).
     (let saName = ServiceAccountName perm;
          status = (case map_of statusesSet saName of
                      None \<Rightarrow> newServiceAccountStatus saName
                    | Some stored \<Rightarrow> stored)
      in case GetServiceAccount a (GetNamespace csv) (ServiceAccountName perm) of
           Inl err \<Rightarrow>
             (False, AList.update saName
                       (status\<lparr>Status := RequirementStatusReasonNotPresent\<rparr>) statusesSet)
         | Inr sa \<Rightarrow>
             (case fold (checkRule a csv sa namespace) (Rules perm) (met, status) of
                (met', status') \<Rightarrow> (met', AList.update saName status' statusesSet))))"

definition checkPermissions ::
  "Operator \<Rightarrow> ClusterServiceVersion \<Rightarrow> StrategyDeploymentPermissions list \<Rightarrow> string
    \<Rightarrow> bool \<times> StatusesSet \<Rightarrow> bool \<times> StatusesSet"
where
  "checkPermissions a csv permissions namespace =
     fold (checkPermission a csv namespace) permissions"

text \<open>The two calls of \<open>checkPermissions\<close>, from \<open>met = true\<close> and the empty map.\<close>

definition checkAllPermissions ::
  "Operator \<Rightarrow> ClusterServiceVersion \<Rightarrow> StrategyDetailsDeployment \<Rightarrow> bool \<times> StatusesSet"
where
  "checkAllPermissions a csv d =
     checkPermissions a csv (ClusterPermissions d) NamespaceAll
       (checkPermissions a csv (Permissions d) (GetNamespace csv) (True, []))"

text \<open>
  \<open>for _, status := range statusesSet\<close> visits the entries of a Go map in an order the
  runtime chooses afresh. The chosen order of the keys is the argument \<open>order\<close>;
  \<open>rangeOrder\<close> says that it is an enumeration of the keys of the map.
\<close>

definition rangeOrder :: "StatusesSet \<Rightarrow> string list \<Rightarrow> bool" where
  "rangeOrder statusesSet order \<longleftrightarrow> mset order = mset (map fst statusesSet)"

definition rangeValues :: "StatusesSet \<Rightarrow> string list \<Rightarrow> RequirementStatus list" where
  "rangeValues statusesSet order = List.map_filter (map_of statusesSet) order"

definition permissionStatus ::
  "Operator \<Rightarrow> ClusterServiceVersion \<Rightarrow> string list \<Rightarrow> bool \<times> RequirementStatus list"
where
  "permissionStatus a csv order =
     (case UnmarshalStrategy a (InstallStrategy csv) of
        Inl err \<Rightarrow> (False, [])
      | Inr strategy \<Rightarrow>
         (case strategy of
            OtherStrategy \<Rightarrow> (False, [])
          | Deployment strategyDetailsDeployment \<Rightarrow>
             (case checkAllPermissions a csv strategyDetailsDeployment of
                (met, statusesSet) \<Rightarrow>
                  (met, fold (\<lambda>status statuses. statuses @ [status])
                          (rangeValues statusesSet order)
                          (replicate (length statusesSet) zeroRequirementStatus)))))"

definition requirementStatus ::
  "Operator \<Rightarrow> ClusterServiceVersion \<Rightarrow> string list \<Rightarrow> bool \<times> RequirementStatus list"
where
  "requirementStatus a csv order =
     (case fold (crdStep a) (GetAllCRDDescriptions csv) (True, []) of
        (met, statuses) \<Rightarrow>
          (case fold (apiStep a) (GetAllAPIServiceDescriptions csv) (met, statuses) of
             (met, statuses) \<Rightarrow>
               (case permissionStatus a csv order of
                  (permissionsMet, permissionStatuses) \<Rightarrow>
                    (met \<and> permissionsMet, statuses @ permissionStatuses))))"

text \<open>What one grant contributes to the dependents of its service account: nothing
  when the service account cannot be fetched (the \<open>continue\<close>), else one dependent per
  rule, in the order of \<open>perm.Rules\<close>.\<close>

definition grantDependents ::
  "Operator \<Rightarrow> ClusterServiceVersion \<Rightarrow> string \<Rightarrow> StrategyDeploymentPermissions
    \<Rightarrow> DependentStatus list"
where
  "grantDependents a csv namespace perm =
     (case GetServiceAccount a (GetNamespace csv) (ServiceAccountName perm) of
        Inl err \<Rightarrow> []
      | Inr sa \<Rightarrow> map (ruleDependent a csv sa namespace) (Rules perm))"

text \<open>The states \<open>(met, statusesSet)\<close> of one evaluation pass: the initial one, and
  the one after each further grant, of either list.\<close>

inductive passState ::
  "Operator \<Rightarrow> ClusterServiceVersion \<Rightarrow> bool \<times> StatusesSet \<Rightarrow> bool"
  for a :: Operator and csv :: ClusterServiceVersion
where
  start: "passState a csv (True, [])"
| grant: "passState a csv s \<Longrightarrow> passState a csv (checkPermission a csv namespace perm s)"

subsection \<open>Notions used in the proofs\<close>

text \<open>The test of the inner loop that sets \<open>met = false\<close>: the rule serialises and
  \<open>RuleSatisfied\<close> returns an error or \<open>false\<close>.\<close>

definition ruleFails ::
  "Operator \<Rightarrow> ClusterServiceVersion \<Rightarrow> ServiceAccount \<Rightarrow> string \<Rightarrow> PolicyRule \<Rightarrow> bool"
where
  "ruleFails a csv sa namespace rule =
     (case json_Marshal a rule of
        Inl err \<Rightarrow> False
      | Inr marshalled \<Rightarrow>
          (case RuleSatisfied a csv sa namespace rule of
             (satisfied, err) \<Rightarrow> err \<noteq> None \<or> \<not> satisfied))"

text \<open>The status a grant starts from: the stored one, or a new one.\<close>

definition storedStatus :: "StatusesSet \<Rightarrow> string \<Rightarrow> RequirementStatus" where
  "storedStatus statusesSet saName =
     (case map_of statusesSet saName of
        None \<Rightarrow> newServiceAccountStatus saName
      | Some stored \<Rightarrow> stored)"

text \<open>Whether one grant leaves \<open>met\<close> as it is.\<close>

definition grantMet ::
  "Operator \<Rightarrow> ClusterServiceVersion \<Rightarrow> string \<Rightarrow> StrategyDeploymentPermissions \<Rightarrow> bool"
where
  "grantMet a csv namespace perm =
     (case GetServiceAccount a (GetNamespace csv) (ServiceAccountName perm) of
        Inl err \<Rightarrow> False
      | Inr sa \<Rightarrow> \<not> list_ex (ruleFails a csv sa namespace) (Rules perm))"

text \<open>The status one grant stores for its service account, from the status it starts from.\<close>

definition grantStatus ::
  "Operator \<Rightarrow> ClusterServiceVersion \<Rightarrow> string \<Rightarrow> StrategyDeploymentPermissions
    \<Rightarrow> RequirementStatus \<Rightarrow> RequirementStatus"
where
  "grantStatus a csv namespace perm status =
     (case GetServiceAccount a (GetNamespace csv) (ServiceAccountName perm) of
        Inl err \<Rightarrow> status\<lparr>Status := RequirementStatusReasonNotPresent\<rparr>
      | Inr sa \<Rightarrow>
          status\<lparr>Status := (if list_ex (ruleFails a csv sa namespace) (Rules perm)
                     then RequirementStatusReasonPresentNotSatisfied else Status status),
                 Dependents := Dependents status
                     @ map (ruleDependent a csv sa namespace) (Rules perm)\<rparr>)"

text \<open>A status that is Present with every dependent Satisfied.\<close>

definition statusMet :: "RequirementStatus \<Rightarrow> bool" where
  "statusMet s \<longleftrightarrow>
     Status s = RequirementStatusReasonPresent
     \<and> list_all (\<lambda>dep. depStatus dep = DependentStatusReasonSatisfied) (Dependents s)"

text \<open>The relation between \<open>met\<close> and the map that the loops keep.\<close>

definition metInvariant :: "bool \<times> StatusesSet \<Rightarrow> bool" where
  "metInvariant s \<longleftrightarrow>
     (fst s \<longleftrightarrow> (\<forall>k status. map_of (snd s) k = Some status \<longrightarrow> statusMet status))"

text \<open>The keys of the map are distinct, and each entry is a ServiceAccount status
  that carries its key as its name.\<close>

definition entryInvariant :: "StatusesSet \<Rightarrow> bool" where
  "entryInvariant statusesSet \<longleftrightarrow>
     distinct (map fst statusesSet)
     \<and> (\<forall>k status. map_of statusesSet k = Some status \<longrightarrow>
            Kind status = ''ServiceAccount'' \<and> Name status = k)"

text \<open>The dependents stored for a name, none when the name is not in the map.\<close>

definition entryDependents :: "StatusesSet \<Rightarrow> string \<Rightarrow> DependentStatus list" where
  "entryDependents statusesSet n =
     (case map_of statusesSet n of None \<Rightarrow> [] | Some status \<Rightarrow> Dependents status)"

text \<open>The relation between a stored status and the result of the service-account lookup
  that the loops keep within one pass.\<close>

definition lookupInvariant :: "Operator \<Rightarrow> ClusterServiceVersion \<Rightarrow> StatusesSet \<Rightarrow> bool" where
  "lookupInvariant a csv statusesSet \<longleftrightarrow>
     (\<forall>k status. map_of statusesSet k = Some status \<longrightarrow>
        (case GetServiceAccount a (GetNamespace csv) k of
           Inl err \<Rightarrow> Status status = RequirementStatusReasonNotPresent
         | Inr sa \<Rightarrow> Status status = RequirementStatusReasonPresent
             \<or> Status status = RequirementStatusReasonPresentNotSatisfied))"

text \<open>A status reason that is the one before, or a downgrade of Present to NotPresent or
  to PresentNotSatisfied.\<close>

definition downgraded :: "StatusReason \<Rightarrow> StatusReason \<Rightarrow> bool" where
  "downgraded before after \<longleftrightarrow>
     after = before
     \<or> (before = RequirementStatusReasonPresent
        \<and> (after = RequirementStatusReasonNotPresent
           \<or> after = RequirementStatusReasonPresentNotSatisfied))"

section \<open>The package-manifest storage\<close>

text \<open>
  Embedding of \<open>pkg/package-server/storage/packagemanifest/reststorage.go\<close>. A Go
  pointer or interface value that may be nil is an \<open>option\<close>; dereferencing nil is
  the panic \<open>NilPointerDereference\<close>, indexing an empty slice \<open>IndexOutOfRange\<close>.
  A Go result pair \<open>(obj, err)\<close> is kept as a pair, since \<open>List\<close> returns both an
  object and an error on one path.
\<close>

datatype panic = NilPointerDereference | IndexOutOfRange

text \<open>\<open>labels.Selector\<close>, seen through its method \<open>Matches\<close>.\<close>

type_synonym LabelSelector = "(string \<rightharpoonup> string) \<Rightarrow> bool"

definition labels_Everything :: LabelSelector where
  "labels_Everything = (\<lambda>labelSet. True)"

record Requirement =
  Requirement_Operator :: string
  Field :: string
  Value :: string

text \<open>\<open>fields.Selector\<close>, seen through the three methods \<open>nameFor\<close> calls.\<close>

record FieldSelector =
  RequiresExactMatch :: "string \<Rightarrow> string \<times> bool"
  Empty :: bool
  Requirements :: "Requirement list"

text \<open>\<open>fields.Everything()\<close>: the selector with no requirement.\<close>

definition fields_Everything :: FieldSelector where
  "fields_Everything =
     \<lparr>RequiresExactMatch = (\<lambda>field. ([], False)), Empty = True, Requirements = []\<rparr>"

record ListOptions =
  LabelSelector :: "LabelSelector option"
  FieldSelector :: "FieldSelector option"
  ResourceVersion :: string

record PackageManifest = ObjectMeta +
  PackageName :: string

record PackageManifestList =
  ListMeta :: string
  Items :: "PackageManifest list"

record PackageManifestProvider =
  prov_List :: "string \<Rightarrow> error + PackageManifestList"
  prov_Get :: "string \<Rightarrow> string \<Rightarrow> error + PackageManifest option"

record PackageManifestStorage =
  groupResource :: string
  prov :: PackageManifestProvider

text \<open>The request context, as far as the storage reads it: the namespace it may carry.
  \<open>NamespaceValue\<close> is the empty string when there is none.\<close>

type_synonym Context = "string option"

definition NamespaceValue :: "Context \<Rightarrow> string" where
  "NamespaceValue ctx = (case ctx of None \<Rightarrow> [] | Some namespace \<Rightarrow> namespace)"

definition nameFor :: "FieldSelector option \<Rightarrow> panic + (string \<times> error option)" where
  "nameFor fs0 =
     (let fs = (case fs0 of None \<Rightarrow> fields_Everything | Some s \<Rightarrow> s)
      in case RequiresExactMatch fs ''metadata.name'' of
           (value, found) \<Rightarrow>
             if found then Inr (value, None)
             else if \<not> Empty fs then
               (case Requirements fs of
                  [] \<Rightarrow> Inl IndexOutOfRange
                | r # rest \<Rightarrow>
                    Inr ([], Some (Error (''field label not supported: '' @ Field r))))
             else Inr ([], None))"

definition matches :: "PackageManifest \<Rightarrow> string \<Rightarrow> string \<Rightarrow> LabelSelector \<Rightarrow> bool" where
  "matches m name namespace ls =
     (let name = (if name = [] then GetName m else name);
          namespace = (if namespace = NamespaceAll then GetNamespace m else namespace)
      in ls (GetLabels m) \<and> GetName m = name \<and> GetNamespace m = namespace)"

definition List ::
  "PackageManifestStorage \<Rightarrow> Context \<Rightarrow> ListOptions option
    \<Rightarrow> panic + (PackageManifestList option \<times> error option)"
where
  "List m ctx options =
     (let namespace = NamespaceValue ctx;
          labelSelector =
            (case options of
               None \<Rightarrow> labels_Everything
             | Some opts \<Rightarrow>
                 (case LabelSelector opts of None \<Rightarrow> labels_Everything | Some ls \<Rightarrow> ls))
      in case options of
           None \<Rightarrow> Inl NilPointerDereference
         | Some opts \<Rightarrow>
            (case nameFor (FieldSelector opts) of
               Inl p \<Rightarrow> Inl p
             | Inr (name, Some err) \<Rightarrow> Inr (None, Some err)
             | Inr (name, None) \<Rightarrow>
                (case prov_List (prov m) namespace of
                   Inl err \<Rightarrow> Inr (Some \<lparr>ListMeta = [], Items = []\<rparr>, Some err)
                 | Inr res \<Rightarrow>
                     Inr (Some (res\<lparr>Items :=
                            filter (\<lambda>manifest. matches manifest name namespace labelSelector)
                              (Items res)\<rparr>), None))))"

definition Get ::
  "PackageManifestStorage \<Rightarrow> Context \<Rightarrow> string \<Rightarrow> PackageManifest option \<times> error option"
where
  "Get m ctx name =
     (case prov_Get (prov m) (NamespaceValue ctx) name of
        Inl err \<Rightarrow> (None, Some err)
      | Inr None \<Rightarrow> (None, Some (NotFound (groupResource m) name))
      | Inr (Some pm) \<Rightarrow> (Some pm, None))"

record Watcher =
  w_namespace :: string
  w_name :: string
  w_resourceVersion :: string
  w_labelSelector :: LabelSelector
  w_prov :: PackageManifestProvider

text \<open>Modelled from the spec: \<open>NewWatcher\<close> is not among the sources. On creation the
  watcher captures its filter parameters (namespace, name, resource-version cursor, label
  selector) and the provider.\<close>

definition NewWatcher ::
  "string \<Rightarrow> string \<Rightarrow> string \<Rightarrow> LabelSelector \<Rightarrow> PackageManifestProvider \<Rightarrow> Watcher"
where
  "NewWatcher namespace name resourceVersion labelSelector p =
     \<lparr>w_namespace = namespace, w_name = name, w_resourceVersion = resourceVersion,
      w_labelSelector = labelSelector, w_prov = p\<rparr>"

text \<open>\<open>Watch\<close> returns the watcher; the task it starts with \<open>go watcher.Run(ctx)\<close>
  is \<open>Run\<close> below.\<close>

definition Watch ::
  "PackageManifestStorage \<Rightarrow> Context \<Rightarrow> ListOptions option
    \<Rightarrow> panic + (Watcher option \<times> error option)"
where
  "Watch m ctx options =
     (let namespace = NamespaceValue ctx
      in case options of
           None \<Rightarrow> Inl NilPointerDereference
         | Some opts \<Rightarrow>
            (case nameFor (FieldSelector opts) of
               Inl p \<Rightarrow> Inl p
             | Inr (name, Some err) \<Rightarrow> Inr (None, Some err)
             | Inr (name, None) \<Rightarrow>
                (let labelSelector =
                       (case options of
                          None \<Rightarrow> labels_Everything
                        | Some opts' \<Rightarrow>
                            (case LabelSelector opts' of
                               None \<Rightarrow> labels_Everything
                             | Some ls \<Rightarrow> ls))
                 in Inr (Some (NewWatcher namespace name (ResourceVersion opts)
                                 labelSelector (prov m)), None))))"

section \<open>The change watcher\<close>

datatype EventType = Added | Modified | Deleted

record Event =
  Type :: EventType
  Object :: PackageManifest

text \<open>What the run context and the provider's change feed deliver to a running
  watcher, in order of arrival.\<close>

datatype FeedSignal = Change EventType PackageManifest | Cancelled | FeedTerminated

text \<open>Modelled from the spec: the initial replay of \<open>Watcher.Run\<close>, which is not among
  the sources. Initializing, the watcher fetches the current snapshot and emits one
  synthetic Added event per record that matches its filter. The spec does not say what
  happens when the provider fails here; no event is replayed then.\<close>

definition replay :: "Watcher \<Rightarrow> Event list" where
  "replay w =
     (case prov_List (w_prov w) (w_namespace w) of
        Inl err \<Rightarrow> []
      | Inr res \<Rightarrow>
          map (\<lambda>manifest. \<lparr>Type = Added, Object = manifest\<rparr>)
            (filter (\<lambda>manifest. matches manifest (w_name w) (w_namespace w) (w_labelSelector w))
               (Items res)))"

text \<open>Modelled from the spec: the Streaming state of \<open>Watcher.Run\<close>. Every incoming
  change passes the same filter before it is emitted with its own event type; a change
  that does not match is dropped; cancellation or the end of the feed closes the
  watcher, after which nothing is emitted.\<close>

fun streaming :: "Watcher \<Rightarrow> FeedSignal list \<Rightarrow> Event list" where
  "streaming w [] = []"
| "streaming w (Change t manifest # feed) =
     (if matches manifest (w_name w) (w_namespace w) (w_labelSelector w)
      then \<lparr>Type = t, Object = manifest\<rparr> # streaming w feed
      else streaming w feed)"
| "streaming w (Cancelled # feed) = []"
| "streaming w (FeedTerminated # feed) = []"

text \<open>Modelled from the spec: \<open>Watcher.Run\<close>, Initializing then Streaming then Closed;
  the result is the sequence of events written to the subscriber's channel.\<close>

definition Run :: "Watcher \<Rightarrow> FeedSignal list \<Rightarrow> Event list" where
  "Run w feed = replay w @ streaming w feed"

section \<open>Concrete inputs\<close>

text \<open>A small cluster and workload on which the theorems below are instantiated: every
  service account exists but \<open>sa-missing\<close>, only rules with the single verb \<open>get\<close> are
  satisfied, every rule serialises, and an install strategy decodes to the deployment
  strategy \<open>d\<close> exactly when it is named \<open>deployment\<close>.\<close>

definition ex_rule :: "string \<Rightarrow> PolicyRule" where
  "ex_rule verb =
     \<lparr>Verbs = [verb], APIGroups = [[]], Resources = [''pods''], ResourceNames = [],
      NonResourceURLs = []\<rparr>"

definition ex_object :: "string \<Rightarrow> ObjectMeta" where
  "ex_object n =
     \<lparr>GetName = n, GetNamespace = ''olm'', GetLabels = Map.empty, GetUID = ''uid-'' @ n\<rparr>"

definition ex_grant :: "string \<Rightarrow> string list \<Rightarrow> StrategyDeploymentPermissions" where
  "ex_grant n verbs = \<lparr>ServiceAccountName = n, Rules = map ex_rule verbs\<rparr>"

definition ex_operator :: "StrategyDetailsDeployment \<Rightarrow> Operator" where
  "ex_operator d =
     \<lparr>GetCustomResourceDefinition =
        (\<lambda>n. if n = ''crd-a'' then Inr (ex_object n) else Inl (NotFound ''crd'' n)),
      ServerResources = Inr [],
      GetAPIService = (\<lambda>n. Inl (NotFound ''apiservice'' n)),
      isAPIServiceAvailable = (\<lambda>s. True),
      GetServiceAccount =
        (\<lambda>ns n. if n = ''sa-missing'' then Inl (NotFound ''serviceaccount'' n)
                else Inr (ex_object n)),
      RuleSatisfied = (\<lambda>csv sa ns rule. (Verbs rule = [''get''], None)),
      json_Marshal = (\<lambda>rule. Inr (concat (Verbs rule))),
      UnmarshalStrategy =
        (\<lambda>s. if StrategyName s = ''deployment'' then Inr (Deployment d)
              else Inl (Error ''unrecognized install strategy''))\<rparr>"

definition ex_csv :: "string \<Rightarrow> ClusterServiceVersion" where
  "ex_csv strategyName =
     \<lparr>GetName = ''csv'', GetNamespace = ''olm'', GetLabels = Map.empty, GetUID = ''uid-csv'',
      GetAllCRDDescriptions = [], GetAllAPIServiceDescriptions = [],
      InstallStrategy = \<lparr>StrategyName = strategyName, StrategySpecRaw = []\<rparr>\<rparr>"

definition ex_hasTerm :: "string \<Rightarrow> string \<Rightarrow> FieldSelector" where
  "ex_hasTerm field v =
     \<lparr>RequiresExactMatch = (\<lambda>f. if f = field then (v, True) else ([], False)),
      Empty = False,
      Requirements = [\<lparr>Requirement_Operator = ''='', Field = field, Value = v\<rparr>]\<rparr>"

definition ex_manifest :: "string \<Rightarrow> string \<Rightarrow> string \<Rightarrow> PackageManifest" where
  "ex_manifest name namespace tier =
     \<lparr>GetName = name, GetNamespace = namespace, GetLabels = [''tier'' \<mapsto> tier],
      GetUID = ''uid-'' @ name, PackageName = name\<rparr>"

definition ex_storage :: PackageManifestStorage where
  "ex_storage =
     \<lparr>groupResource = ''packagemanifests'',
      prov = \<lparr>prov_List =
                (\<lambda>namespace. if namespace = ''broken'' then Inl (Error ''provider down'')
                   else Inr \<lparr>ListMeta = ''rv1'',
                          Items = [ex_manifest ''pkg-a'' ''ns1'' ''stable'',
                                   ex_manifest ''pkg-b'' ''ns1'' ''stable'',
                                   ex_manifest ''pkg-a'' ''ns2'' ''alpha'']\<rparr>),
              prov_Get = (\<lambda>namespace name. Inr None)\<rparr>\<rparr>"

definition ex_options :: "FieldSelector option \<Rightarrow> ListOptions" where
  "ex_options fs =
     \<lparr>LabelSelector = Some (\<lambda>labelSet. labelSet ''tier'' = Some ''stable''),
      FieldSelector = fs, ResourceVersion = []\<rparr>"

text \<open>Deployment strategies: one service account granted in both lists; two service
  accounts, the first of them in both lists; three service accounts of which one has an
  unsatisfied rule and one does not exist; a single grant.\<close>

definition ex_merge :: StrategyDetailsDeployment where
  "ex_merge =
     \<lparr>Permissions = [ex_grant ''sa-a'' [''get'']],
      ClusterPermissions = [ex_grant ''sa-a'' [''get'', ''get'']]\<rparr>"

definition ex_both :: StrategyDetailsDeployment where
  "ex_both =
     \<lparr>Permissions = [ex_grant ''sa-a'' [''get''], ex_grant ''sa-b'' [''watch'']],
      ClusterPermissions = [ex_grant ''sa-a'' [''list'']]\<rparr>"

definition ex_two :: StrategyDetailsDeployment where
  "ex_two =
     \<lparr>Permissions = [ex_grant ''sa-a'' [''get''], ex_grant ''sa-b'' [''list'']],
      ClusterPermissions = [ex_grant ''sa-missing'' [''get'']]\<rparr>"

definition ex_one :: StrategyDetailsDeployment where
  "ex_one = \<lparr>Permissions = [ex_grant ''sa-a'' [''get'']], ClusterPermissions = []\<rparr>"

section \<open>Auxiliary facts\<close>

lemma consts_distinct [simp]:
  "RequirementStatusReasonPresent \<noteq> RequirementStatusReasonNotPresent"
  "RequirementStatusReasonPresent \<noteq> RequirementStatusReasonPresentNotSatisfied"
  "RequirementStatusReasonNotPresent \<noteq> RequirementStatusReasonPresent"
  "RequirementStatusReasonPresentNotSatisfied \<noteq> RequirementStatusReasonPresent"
  "RequirementStatusReasonNotPresent \<noteq> RequirementStatusReasonPresentNotSatisfied"
  "RequirementStatusReasonPresentNotSatisfied \<noteq> RequirementStatusReasonNotPresent"
  "DependentStatusReasonSatisfied \<noteq> DependentStatusReasonNotSatisfied"
  "DependentStatusReasonNotSatisfied \<noteq> DependentStatusReasonSatisfied"
  by (simp_all add: RequirementStatusReasonPresent_def RequirementStatusReasonNotPresent_def
      RequirementStatusReasonPresentNotSatisfied_def DependentStatusReasonSatisfied_def
      DependentStatusReasonNotSatisfied_def)

lemma fold_crdStep:
  "fold (crdStep a) rs (met, statuses) =
     (met \<and> list_all (\<lambda>r. Status (crdStatus a r) = RequirementStatusReasonPresent) rs,
      statuses @ map (crdStatus a) rs)"
proof (induction rs arbitrary: met statuses)
  case Nil
  show ?case by simp
next
  case (Cons r rs)
  have step: "crdStep a r (met, statuses) =
     (met \<and> Status (crdStatus a r) = RequirementStatusReasonPresent, statuses @ [crdStatus a r])"
    by (simp add: crdStep_def crdStatus_def split: sum.split)
  show ?case by (simp add: step Cons.IH)
qed

lemma fold_apiStep:
  "fold (apiStep a) rs (met, statuses) =
     (met \<and> list_all (\<lambda>r. Status (apiStatus a r) = RequirementStatusReasonPresent) rs,
      statuses @ map (apiStatus a) rs)"
proof (induction rs arbitrary: met statuses)
  case Nil
  show ?case by simp
next
  case (Cons r rs)
  have step: "apiStep a r (met, statuses) =
     (met \<and> Status (apiStatus a r) = RequirementStatusReasonPresent, statuses @ [apiStatus a r])"
    by (simp add: apiStep_def apiStatus_def RequirementStatusReasonPresent_def Let_def
        split: option.split sum.split)
  show ?case by (simp add: step Cons.IH)
qed

lemma fold_snoc: "fold (\<lambda>x acc. acc @ [x]) xs ys = ys @ xs"
  by (induction xs arbitrary: ys) simp_all

lemma permissionStatus_not_deployment:
  assumes "(\<exists>err. UnmarshalStrategy a (InstallStrategy csv) = Inl err)
     \<or> UnmarshalStrategy a (InstallStrategy csv) = Inr OtherStrategy"
  shows "permissionStatus a csv order = (False, [])"
  using assms by (auto simp: permissionStatus_def)

lemma requirementStatus_split:
  "requirementStatus a csv order =
     (list_all (\<lambda>r. Status (crdStatus a r) = RequirementStatusReasonPresent) (GetAllCRDDescriptions csv)
      \<and> list_all (\<lambda>r. Status (apiStatus a r) = RequirementStatusReasonPresent) (GetAllAPIServiceDescriptions csv)
      \<and> fst (permissionStatus a csv order),
      map (crdStatus a) (GetAllCRDDescriptions csv)
      @ map (apiStatus a) (GetAllAPIServiceDescriptions csv)
      @ snd (permissionStatus a csv order))"
  by (simp add: requirementStatus_def fold_crdStep fold_apiStep split: prod.split)


lemma checkRule_closed:
  "checkRule a csv sa namespace rule (met, status) =
     (met \<and> \<not> ruleFails a csv sa namespace rule,
      status\<lparr>Status := (if ruleFails a csv sa namespace rule
                          then RequirementStatusReasonPresentNotSatisfied else Status status),
             Dependents := Dependents status @ [ruleDependent a csv sa namespace rule]\<rparr>)"
  by (auto simp: checkRule_def ruleFails_def split: sum.split prod.split)

lemma fold_checkRule:
  "fold (checkRule a csv sa namespace) rules (met, status) =
     (met \<and> \<not> list_ex (ruleFails a csv sa namespace) rules,
      status\<lparr>Status := (if list_ex (ruleFails a csv sa namespace) rules
                          then RequirementStatusReasonPresentNotSatisfied else Status status),
             Dependents := Dependents status @ map (ruleDependent a csv sa namespace) rules\<rparr>)"
proof (induction rules arbitrary: met status)
  case Nil
  show ?case by simp
next
  case (Cons rule rules)
  show ?case
    by (simp add: checkRule_closed Cons.IH)
qed

lemma checkPermission_closed:
  "checkPermission a csv namespace perm (met, statusesSet) =
     (case GetServiceAccount a (GetNamespace csv) (ServiceAccountName perm) of
        Inl err \<Rightarrow>
          (False, AList.update (ServiceAccountName perm)
             ((storedStatus statusesSet (ServiceAccountName perm))
                \<lparr>Status := RequirementStatusReasonNotPresent\<rparr>) statusesSet)
      | Inr sa \<Rightarrow>
          (met \<and> \<not> list_ex (ruleFails a csv sa namespace) (Rules perm),
           AList.update (ServiceAccountName perm)
             ((storedStatus statusesSet (ServiceAccountName perm))
                \<lparr>Status := (if list_ex (ruleFails a csv sa namespace) (Rules perm)
                     then RequirementStatusReasonPresentNotSatisfied
                     else Status (storedStatus statusesSet (ServiceAccountName perm))),
                 Dependents := Dependents (storedStatus statusesSet (ServiceAccountName perm))
                     @ map (ruleDependent a csv sa namespace) (Rules perm)\<rparr>) statusesSet))"
  by (simp add: checkPermission_def storedStatus_def fold_checkRule Let_def split: sum.split)

lemma checkPermission_grant:
  "checkPermission a csv namespace perm (met, statusesSet) =
     (met \<and> grantMet a csv namespace perm,
      AList.update (ServiceAccountName perm)
        (grantStatus a csv namespace perm (storedStatus statusesSet (ServiceAccountName perm)))
        statusesSet)"
  by (simp add: checkPermission_closed grantMet_def grantStatus_def split: sum.split)

lemma grantStatus_fields [simp]:
  "Kind (grantStatus a csv namespace perm status) = Kind status"
  "Name (grantStatus a csv namespace perm status) = Name status"
  "Group (grantStatus a csv namespace perm status) = Group status"
  "Version (grantStatus a csv namespace perm status) = Version status"
  by (simp_all add: grantStatus_def split: sum.split)

lemma grantStatus_Dependents:
  "Dependents (grantStatus a csv namespace perm status) =
     Dependents status @ grantDependents a csv namespace perm"
  by (simp add: grantStatus_def grantDependents_def split: sum.split)

lemma grantStatus_Status:
  "Status (grantStatus a csv namespace perm status) = Status status
   \<or> Status (grantStatus a csv namespace perm status) = RequirementStatusReasonNotPresent
   \<or> Status (grantStatus a csv namespace perm status) = RequirementStatusReasonPresentNotSatisfied"
  by (simp add: grantStatus_def split: sum.split)

lemma ruleDependent_Satisfied:
  assumes "json_Marshal a rule = Inr marshalled"
  shows "depStatus (ruleDependent a csv sa namespace rule) = DependentStatusReasonSatisfied
     \<longleftrightarrow> \<not> ruleFails a csv sa namespace rule"
  using assms by (auto simp: ruleDependent_def ruleFails_def Let_def split: prod.split)

lemma grantStatus_statusMet:
  assumes "\<And>rule. \<exists>marshalled. json_Marshal a rule = Inr marshalled"
  shows "statusMet (grantStatus a csv namespace perm status)
     \<longleftrightarrow> statusMet status \<and> grantMet a csv namespace perm"
proof (cases "GetServiceAccount a (GetNamespace csv) (ServiceAccountName perm)")
  case (Inl err)
  then show ?thesis
    by (simp add: statusMet_def grantStatus_def grantMet_def)
next
  case (Inr sa)
  have dep: "depStatus (ruleDependent a csv sa namespace rule) = DependentStatusReasonSatisfied
     \<longleftrightarrow> \<not> ruleFails a csv sa namespace rule" for rule
    using assms [of rule] ruleDependent_Satisfied by blast
  have all: "list_all (\<lambda>dep. depStatus dep = DependentStatusReasonSatisfied)
               (map (ruleDependent a csv sa namespace) (Rules perm))
     \<longleftrightarrow> \<not> list_ex (ruleFails a csv sa namespace) (Rules perm)"
    by (simp add: list_all_iff list_ex_iff dep)
  show ?thesis
    using Inr all by (auto simp: statusMet_def grantStatus_def grantMet_def)
qed

lemma statusMet_new [simp]: "statusMet (newServiceAccountStatus saName)"
  by (simp add: statusMet_def newServiceAccountStatus_def)

lemma metInvariant_checkPermission:
  assumes m: "\<And>rule. \<exists>marshalled. json_Marshal a rule = Inr marshalled"
    and inv: "metInvariant s"
  shows "metInvariant (checkPermission a csv namespace perm s)"
proof -
  obtain met statusesSet where s: "s = (met, statusesSet)" by (cases s)
  let ?n = "ServiceAccountName perm"
  let ?st0 = "storedStatus statusesSet ?n"
  have rest: "(\<forall>k status. map_of statusesSet k = Some status \<longrightarrow> statusMet status)
     \<longleftrightarrow> statusMet ?st0
         \<and> (\<forall>k status. k \<noteq> ?n \<longrightarrow> map_of statusesSet k = Some status \<longrightarrow> statusMet status)"
  proof (cases "map_of statusesSet ?n")
    case None
    then show ?thesis
      by (simp add: storedStatus_def) (metis option.distinct(1))
  next
    case (Some stored)
    then show ?thesis
      by (simp add: storedStatus_def) (metis option.inject)
  qed
  have "(\<forall>k status. map_of (AList.update ?n (grantStatus a csv namespace perm ?st0) statusesSet) k
            = Some status \<longrightarrow> statusMet status)
     \<longleftrightarrow> statusMet (grantStatus a csv namespace perm ?st0)
         \<and> (\<forall>k status. k \<noteq> ?n \<longrightarrow> map_of statusesSet k = Some status \<longrightarrow> statusMet status)"
    by (auto simp: update_conv')
  also have "\<dots> \<longleftrightarrow> (statusMet ?st0 \<and> grantMet a csv namespace perm)
         \<and> (\<forall>k status. k \<noteq> ?n \<longrightarrow> map_of statusesSet k = Some status \<longrightarrow> statusMet status)"
    by (simp add: grantStatus_statusMet [OF m])
  also have "\<dots> \<longleftrightarrow> met \<and> grantMet a csv namespace perm"
    using inv rest by (auto simp: metInvariant_def s)
  finally show ?thesis
    by (simp add: metInvariant_def s checkPermission_grant)
qed

lemma metInvariant_checkPermissions:
  assumes m: "\<And>rule. \<exists>marshalled. json_Marshal a rule = Inr marshalled"
  shows "metInvariant s \<Longrightarrow> metInvariant (checkPermissions a csv permissions namespace s)"
  unfolding checkPermissions_def
  by (induction permissions arbitrary: s) (simp_all add: metInvariant_checkPermission [OF m])

lemma metInvariant_checkAllPermissions:
  assumes m: "\<And>rule. \<exists>marshalled. json_Marshal a rule = Inr marshalled"
  shows "metInvariant (checkAllPermissions a csv d)"
  unfolding checkAllPermissions_def
  by (intro metInvariant_checkPermissions [OF m]) (simp add: metInvariant_def)

lemma storedStatus_fields:
  assumes "entryInvariant statusesSet"
  shows "Kind (storedStatus statusesSet n) = ''ServiceAccount''"
    and "Name (storedStatus statusesSet n) = n"
  using assms
  by (auto simp: entryInvariant_def storedStatus_def newServiceAccountStatus_def
      split: option.split)

lemma entryInvariant_checkPermission:
  assumes "entryInvariant (snd s)"
  shows "entryInvariant (snd (checkPermission a csv namespace perm s))"
proof -
  obtain met statusesSet where s: "s = (met, statusesSet)" by (cases s)
  from assms have inv: "entryInvariant statusesSet" by (simp add: s)
  show ?thesis
    using inv storedStatus_fields [OF inv, of "ServiceAccountName perm"]
    by (auto simp: s checkPermission_grant entryInvariant_def distinct_update update_conv')
qed

lemma entryInvariant_checkPermissions:
  "entryInvariant (snd s) \<Longrightarrow> entryInvariant (snd (checkPermissions a csv permissions namespace s))"
  unfolding checkPermissions_def
  by (induction permissions arbitrary: s) (simp_all add: entryInvariant_checkPermission)

lemma entryInvariant_checkAllPermissions:
  "entryInvariant (snd (checkAllPermissions a csv d))"
  unfolding checkAllPermissions_def
  by (intro entryInvariant_checkPermissions) (simp add: entryInvariant_def)

lemma keys_checkPermission:
  "fst ` set (snd (checkPermission a csv namespace perm s))
     = insert (ServiceAccountName perm) (fst ` set (snd s))"
  by (cases s) (simp add: checkPermission_grant dom_update)

lemma keys_checkPermissions:
  "fst ` set (snd (checkPermissions a csv permissions namespace s))
     = fst ` set (snd s) \<union> ServiceAccountName ` set permissions"
  unfolding checkPermissions_def
  by (induction permissions arbitrary: s) (auto simp: keys_checkPermission)

lemma keys_checkAllPermissions:
  "fst ` set (snd (checkAllPermissions a csv d))
     = ServiceAccountName ` (set (Permissions d) \<union> set (ClusterPermissions d))"
  by (auto simp: checkAllPermissions_def keys_checkPermissions)

lemma entryDependents_checkPermission:
  "entryDependents (snd (checkPermission a csv namespace perm s)) n
     = entryDependents (snd s) n
       @ (if ServiceAccountName perm = n then grantDependents a csv namespace perm else [])"
  by (cases s)
     (auto simp: checkPermission_grant entryDependents_def update_conv' grantStatus_Dependents
        storedStatus_def newServiceAccountStatus_def split: option.split)

lemma entryDependents_checkPermissions:
  "entryDependents (snd (checkPermissions a csv permissions namespace s)) n
     = entryDependents (snd s) n
       @ concat (map (grantDependents a csv namespace)
           (filter (\<lambda>perm. ServiceAccountName perm = n) permissions))"
  unfolding checkPermissions_def
  by (induction permissions arbitrary: s) (simp_all add: entryDependents_checkPermission)

lemma entryDependents_checkAllPermissions:
  "entryDependents (snd (checkAllPermissions a csv d)) n
     = concat (map (grantDependents a csv (GetNamespace csv))
           (filter (\<lambda>perm. ServiceAccountName perm = n) (Permissions d)))
       @ concat (map (grantDependents a csv NamespaceAll)
           (filter (\<lambda>perm. ServiceAccountName perm = n) (ClusterPermissions d)))"
proof -
  have "entryDependents [] n = []"
    by (simp add: entryDependents_def)
  then show ?thesis
    by (simp add: checkAllPermissions_def entryDependents_checkPermissions)
qed

lemma permissionStatus_deployment:
  assumes "UnmarshalStrategy a (InstallStrategy csv) = Inr (Deployment d)"
  shows "permissionStatus a csv order =
     (fst (checkAllPermissions a csv d),
      replicate (length (snd (checkAllPermissions a csv d))) zeroRequirementStatus
      @ rangeValues (snd (checkAllPermissions a csv d)) order)"
  using assms by (simp add: permissionStatus_def fold_snoc split: prod.split)

lemma rangeOrder_keys:
  assumes "rangeOrder statusesSet order"
  shows "set order = fst ` set statusesSet"
    and "distinct order \<longleftrightarrow> distinct (map fst statusesSet)"
proof -
  from assms have m: "mset order = mset (map fst statusesSet)"
    by (simp add: rangeOrder_def)
  from m have "set_mset (mset order) = set_mset (mset (map fst statusesSet))" by simp
  then show "set order = fst ` set statusesSet" by simp
  from m show "distinct order \<longleftrightarrow> distinct (map fst statusesSet)"
    by (metis distinct_count_atmost_1 set_mset_mset count_mset)
qed

lemma rangeValues_map:
  assumes "rangeOrder statusesSet order"
  shows "rangeValues statusesSet order = map (\<lambda>k. the (map_of statusesSet k)) order"
proof -
  have "\<forall>k \<in> set order. map_of statusesSet k \<noteq> None"
    using rangeOrder_keys(1) [OF assms] by (simp add: map_of_eq_None_iff)
  then have "filter (\<lambda>k. map_of statusesSet k \<noteq> None) order = order"
    by (simp add: filter_id_conv)
  then show ?thesis
    by (simp add: rangeValues_def List.map_filter_def)
qed

lemma set_rangeValues:
  assumes "rangeOrder statusesSet order"
  shows "set (rangeValues statusesSet order) = {status. \<exists>k. map_of statusesSet k = Some status}"
proof -
  have "set (rangeValues statusesSet order) = (\<lambda>k. the (map_of statusesSet k)) ` fst ` set statusesSet"
    by (simp add: rangeValues_map [OF assms] rangeOrder_keys(1) [OF assms])
  also have "\<dots> = {status. \<exists>k. map_of statusesSet k = Some status}"
  proof (intro set_eqI iffI)
    fix status
    assume "status \<in> (\<lambda>k. the (map_of statusesSet k)) ` fst ` set statusesSet"
    then obtain k where k: "k \<in> fst ` set statusesSet" and st: "status = the (map_of statusesSet k)"
      by blast
    from k obtain v where "map_of statusesSet k = Some v"
      by (metis map_of_eq_None_iff not_None_eq)
    with st show "status \<in> {status. \<exists>k. map_of statusesSet k = Some status}" by auto
  next
    fix status
    assume "status \<in> {status. \<exists>k. map_of statusesSet k = Some status}"
    then obtain k where k: "map_of statusesSet k = Some status" by blast
    then have "k \<in> fst ` set statusesSet"
      by (metis map_of_eq_None_iff option.distinct(1))
    with k show "status \<in> (\<lambda>k. the (map_of statusesSet k)) ` fst ` set statusesSet"
      by (metis image_eqI option.sel)
  qed
  finally show ?thesis .
qed

lemma mset_rangeValues:
  assumes "rangeOrder statusesSet order" and "distinct (map fst statusesSet)"
  shows "mset (rangeValues statusesSet order) = mset (map snd statusesSet)"
proof -
  have "mset (rangeValues statusesSet order)
      = image_mset (\<lambda>k. the (map_of statusesSet k)) (mset order)"
    by (simp add: rangeValues_map [OF assms(1)])
  also have "\<dots> = image_mset (\<lambda>k. the (map_of statusesSet k)) (mset (map fst statusesSet))"
    using assms(1) by (simp add: rangeOrder_def)
  also have "\<dots> = mset (map (\<lambda>p. the (map_of statusesSet (fst p))) statusesSet)"
    by (simp add: multiset.map_comp comp_def)
  also have "map (\<lambda>p. the (map_of statusesSet (fst p))) statusesSet = map snd statusesSet"
    using assms(2) by (intro map_cong) auto
  finally show ?thesis .
qed

lemma crdStatus_fields [simp]:
  "Kind (crdStatus a r) = ''CustomResourceDefinition''"
  "Dependents (crdStatus a r) = []"
  by (simp_all add: crdStatus_def Let_def split: sum.split)

lemma apiStatus_fields [simp]:
  "Kind (apiStatus a r) = ''APIService''"
  "Dependents (apiStatus a r) = []"
  by (simp_all add: apiStatus_def Let_def split: sum.split option.split)

lemma Kind_zero [simp]: "Kind zeroRequirementStatus = []"
  by (simp add: zeroRequirementStatus_def)

lemma requirementStatus_deployment:
  assumes "UnmarshalStrategy a (InstallStrategy csv) = Inr (Deployment d)"
  shows "requirementStatus a csv order =
     (list_all (\<lambda>r. Status (crdStatus a r) = RequirementStatusReasonPresent)
        (GetAllCRDDescriptions csv)
      \<and> list_all (\<lambda>r. Status (apiStatus a r) = RequirementStatusReasonPresent)
        (GetAllAPIServiceDescriptions csv)
      \<and> fst (checkAllPermissions a csv d),
      map (crdStatus a) (GetAllCRDDescriptions csv)
      @ map (apiStatus a) (GetAllAPIServiceDescriptions csv)
      @ replicate (length (snd (checkAllPermissions a csv d))) zeroRequirementStatus
      @ rangeValues (snd (checkAllPermissions a csv d)) order)"
  by (simp add: requirementStatus_split permissionStatus_deployment [OF assms])

lemmas eval_defs =
  requirementStatus_def permissionStatus_def checkAllPermissions_def checkPermissions_def
  checkPermission_def checkRule_def ruleDependent_def rangeValues_def rangeOrder_def
  List.map_filter_def newServiceAccountStatus_def zeroRequirementStatus_def
  grantDependents_def NamespaceAll_def Let_def
  RequirementStatusReasonPresent_def RequirementStatusReasonNotPresent_def
  RequirementStatusReasonPresentNotSatisfied_def DependentStatusReasonSatisfied_def
  DependentStatusReasonNotSatisfied_def
  ex_operator_def ex_csv_def ex_grant_def ex_rule_def ex_object_def

lemma ex_csv_fields [simp]:
  "GetAllCRDDescriptions (ex_csv n) = []"
  "GetAllAPIServiceDescriptions (ex_csv n) = []"
  "GetNamespace (ex_csv n) = ''olm''"
  by (simp_all add: ex_csv_def)

lemma ex_merge_pass:
  "checkAllPermissions (ex_operator ex_merge) (ex_csv ''deployment'') ex_merge =
     (True, [(''sa-a'',
        \<lparr>Group = [], Version = ''v1'', Kind = ''ServiceAccount'', Name = ''sa-a'',
         Status = ''Present'', Message = [], UUID = [],
         Dependents = replicate 3
           \<lparr>depGroup = ''rbac.authorization.k8s.io'', depVersion = ''v1beta1'',
            depKind = ''PolicyRule'', depStatus = ''Satisfied'', depUUID = [],
            depMessage = ''rule raw:get''\<rparr>\<rparr>)])"
  by (simp add: eval_defs ex_merge_def numeral_3_eq_3)

lemma ex_one_result:
  "requirementStatus (ex_operator ex_one) (ex_csv ''deployment'') [''sa-a''] =
     (True, [zeroRequirementStatus,
        \<lparr>Group = [], Version = ''v1'', Kind = ''ServiceAccount'', Name = ''sa-a'',
         Status = ''Present'', Message = [], UUID = [],
         Dependents = [\<lparr>depGroup = ''rbac.authorization.k8s.io'', depVersion = ''v1beta1'',
            depKind = ''PolicyRule'', depStatus = ''Satisfied'', depUUID = [],
            depMessage = ''rule raw:get''\<rparr>]\<rparr>])"
  by (simp add: eval_defs ex_one_def)

lemma ex_both_result:
  "map (\<lambda>s. (Kind s, Name s, Status s, map depMessage (Dependents s)))
     (snd (requirementStatus (ex_operator ex_both) (ex_csv ''deployment'') [''sa-b'', ''sa-a'']))
     = [([], [], [], []), ([], [], [], []),
        (''ServiceAccount'', ''sa-b'', ''PresentNotSatisfied'', [''rule raw:watch'']),
        (''ServiceAccount'', ''sa-a'', ''PresentNotSatisfied'', [''rule raw:get'', ''rule raw:list''])]"
  by (simp add: eval_defs ex_both_def)

lemma ex_both_keys:
  "map fst (snd (checkAllPermissions (ex_operator ex_both) (ex_csv ''deployment'') ex_both))
     = [''sa-a'', ''sa-b'']"
  by (simp add: eval_defs ex_both_def)

lemma Status_new [simp]:
  "Status (newServiceAccountStatus n) = RequirementStatusReasonPresent"
  by (simp add: newServiceAccountStatus_def)

lemma lookupInvariant_checkPermission:
  assumes "lookupInvariant a csv (snd s)"
  shows "lookupInvariant a csv (snd (checkPermission a csv namespace perm s))"
proof -
  obtain met statusesSet where s: "s = (met, statusesSet)" by (cases s)
  let ?n = "ServiceAccountName perm"
  from assms have inv: "lookupInvariant a csv statusesSet" by (simp add: s)
  have stored: "case GetServiceAccount a (GetNamespace csv) ?n of
           Inl err \<Rightarrow> True
         | Inr sa \<Rightarrow> Status (storedStatus statusesSet ?n) = RequirementStatusReasonPresent
             \<or> Status (storedStatus statusesSet ?n) = RequirementStatusReasonPresentNotSatisfied"
  proof (cases "map_of statusesSet ?n")
    case None
    then show ?thesis
      by (simp add: storedStatus_def split: sum.split)
  next
    case (Some stored)
    with inv have "case GetServiceAccount a (GetNamespace csv) ?n of
           Inl err \<Rightarrow> Status stored = RequirementStatusReasonNotPresent
         | Inr sa \<Rightarrow> Status stored = RequirementStatusReasonPresent
             \<or> Status stored = RequirementStatusReasonPresentNotSatisfied"
      by (simp add: lookupInvariant_def)
    with Some show ?thesis
      by (auto simp: storedStatus_def split: sum.splits)
  qed
  have new: "case GetServiceAccount a (GetNamespace csv) ?n of
           Inl err \<Rightarrow> Status (grantStatus a csv namespace perm (storedStatus statusesSet ?n))
             = RequirementStatusReasonNotPresent
         | Inr sa \<Rightarrow>
             Status (grantStatus a csv namespace perm (storedStatus statusesSet ?n))
               = RequirementStatusReasonPresent
             \<or> Status (grantStatus a csv namespace perm (storedStatus statusesSet ?n))
               = RequirementStatusReasonPresentNotSatisfied"
    using stored by (auto simp: grantStatus_def split: sum.splits)
  show ?thesis
    using inv new
    by (auto simp: s checkPermission_grant lookupInvariant_def update_conv')
qed

lemma passState_lookupInvariant:
  "passState a csv s \<Longrightarrow> lookupInvariant a csv (snd s)"
proof (induction rule: passState.induct)
  case start
  show ?case by (simp add: lookupInvariant_def)
next
  case (grant s namespace perm)
  then show ?case by (simp add: lookupInvariant_checkPermission)
qed

lemma passState_checkPermissions:
  "passState a csv s \<Longrightarrow> passState a csv (checkPermissions a csv permissions namespace s)"
  unfolding checkPermissions_def
  by (induction permissions arbitrary: s) (simp_all add: passState.grant)

lemma passState_checkAllPermissions: "passState a csv (checkAllPermissions a csv d)"
  unfolding checkAllPermissions_def
  by (intro passState_checkPermissions passState.start)

lemma downgraded_trans:
  "downgraded x y \<Longrightarrow> downgraded y z \<Longrightarrow> downgraded x z"
  by (auto simp: downgraded_def)

lemma downgraded_checkPermission:
  assumes "passState a csv s" and "map_of (snd s) n = Some status"
  shows "\<exists>status'. map_of (snd (checkPermission a csv namespace perm s)) n = Some status'
     \<and> downgraded (Status status) (Status status')"
proof -
  obtain met statusesSet where s: "s = (met, statusesSet)" by (cases s)
  from assms(2) have st: "map_of statusesSet n = Some status" by (simp add: s)
  from passState_lookupInvariant [OF assms(1)]
  have inv: "lookupInvariant a csv statusesSet" by (simp add: s)
  show ?thesis
  proof (cases "ServiceAccountName perm = n")
    case False
    with st show ?thesis
      by (simp add: s checkPermission_grant update_conv' downgraded_def)
  next
    case True
    from st have stored: "storedStatus statusesSet n = status"
      by (simp add: storedStatus_def)
    from inv st have "case GetServiceAccount a (GetNamespace csv) n of
           Inl err \<Rightarrow> Status status = RequirementStatusReasonNotPresent
         | Inr sa \<Rightarrow> Status status = RequirementStatusReasonPresent
             \<or> Status status = RequirementStatusReasonPresentNotSatisfied"
      by (simp add: lookupInvariant_def)
    then have "downgraded (Status status) (Status (grantStatus a csv namespace perm status))"
      using True by (auto simp: grantStatus_def downgraded_def split: sum.splits)
    with True stored show ?thesis
      by (simp add: s checkPermission_grant update_conv')
  qed
qed

lemma downgraded_checkPermissions:
  assumes "passState a csv s" and "map_of (snd s) n = Some status"
  shows "\<exists>status'. map_of (snd (checkPermissions a csv permissions namespace s)) n = Some status'
     \<and> downgraded (Status status) (Status status')"
  using assms
proof (induction permissions arbitrary: s status)
  case Nil
  then show ?case by (simp add: checkPermissions_def downgraded_def)
next
  case (Cons perm permissions)
  from downgraded_checkPermission [OF Cons.prems, of namespace perm]
  obtain status1 where
    one: "map_of (snd (checkPermission a csv namespace perm s)) n = Some status1"
    and d1: "downgraded (Status status) (Status status1)"
    by blast
  from Cons.IH [OF passState.grant [OF Cons.prems(1)] one]
  obtain status' where
    two: "map_of (snd (checkPermissions a csv permissions namespace
            (checkPermission a csv namespace perm s))) n = Some status'"
    and d2: "downgraded (Status status1) (Status status')"
    by blast
  from two downgraded_trans [OF d1 d2] show ?case
    by (simp add: checkPermissions_def)
qed

lemma first_grant_status:
  assumes "map_of (snd s) n = None" and "ServiceAccountName perm = n"
  shows "\<exists>status'. map_of (snd (checkPermission a csv namespace perm s)) n = Some status'
     \<and> downgraded RequirementStatusReasonPresent (Status status')"
proof -
  obtain met statusesSet where s: "s = (met, statusesSet)" by (cases s)
  from assms(1) have "storedStatus statusesSet n = newServiceAccountStatus n"
    by (simp add: s storedStatus_def)
  moreover have "downgraded RequirementStatusReasonPresent
      (Status (grantStatus a csv namespace perm (newServiceAccountStatus n)))"
    by (auto simp: grantStatus_def downgraded_def split: sum.splits)
  ultimately show ?thesis
    using assms(2) by (simp add: s checkPermission_grant update_conv')
qed

lemma never_Present_again:
  assumes "map_of (snd s) n = Some status"
    and "Status status \<noteq> RequirementStatusReasonPresent"
  shows "\<exists>status'. map_of (snd (checkPermissions a csv permissions namespace s)) n = Some status'
     \<and> Status status' \<noteq> RequirementStatusReasonPresent"
  using assms
proof (induction permissions arbitrary: s status)
  case Nil
  then show ?case by (simp add: checkPermissions_def)
next
  case (Cons perm permissions)
  obtain met statusesSet where s: "s = (met, statusesSet)" by (cases s)
  from Cons.prems have st: "map_of statusesSet n = Some status" by (simp add: s)
  have "\<exists>status1. map_of (snd (checkPermission a csv namespace perm s)) n = Some status1
      \<and> Status status1 \<noteq> RequirementStatusReasonPresent"
  proof (cases "ServiceAccountName perm = n")
    case False
    with st Cons.prems(2) show ?thesis
      by (simp add: s checkPermission_grant update_conv')
  next
    case True
    from st have "storedStatus statusesSet n = status"
      by (simp add: storedStatus_def)
    moreover have "Status (grantStatus a csv namespace perm status)
        \<noteq> RequirementStatusReasonPresent"
      using Cons.prems(2) by (auto simp: grantStatus_def split: sum.splits)
    ultimately show ?thesis
      using True by (simp add: s checkPermission_grant update_conv')
  qed
  then obtain status1 where
    one: "map_of (snd (checkPermission a csv namespace perm s)) n = Some status1"
    and ne: "Status status1 \<noteq> RequirementStatusReasonPresent"
    by blast
  from Cons.IH [OF one ne] show ?case
    by (simp add: checkPermissions_def)
qed

lemma ex_downgraded_state:
  "checkPermission (ex_operator ex_two) (ex_csv ''deployment'') ''olm''
       (ex_grant ''sa-b'' [''list'']) (True, [])
     = (False, [(''sa-b'',
          \<lparr>Group = [], Version = ''v1'', Kind = ''ServiceAccount'', Name = ''sa-b'',
           Status = ''PresentNotSatisfied'', Message = [], UUID = [],
           Dependents = [\<lparr>depGroup = ''rbac.authorization.k8s.io'', depVersion = ''v1beta1'',
              depKind = ''PolicyRule'', depStatus = ''NotSatisfied'', depUUID = [],
              depMessage = ''rule raw:list''\<rparr>]\<rparr>)])"
  by (simp add: eval_defs)

section \<open>Claims\<close>

text \<open>
  C1, as amended. For a workload whose install strategy decodes to the deployment
  variant, with every rule serialisable and whatever enumeration of the map the runtime
  picks, \<open>met\<close> is true if and only if every status of the returned sequence other than
  a zero-valued one is Present and all its dependents are Satisfied.
\<close>

theorem requirementStatus_met_iff:
  assumes dep: "UnmarshalStrategy a (InstallStrategy csv) = Inr (Deployment d)"
    and marshal: "\<And>rule. \<exists>marshalled. json_Marshal a rule = Inr marshalled"
    and order: "rangeOrder (snd (checkAllPermissions a csv d)) order"
  shows "fst (requirementStatus a csv order) \<longleftrightarrow>
     (\<forall>s \<in> set (snd (requirementStatus a csv order)). s \<noteq> zeroRequirementStatus \<longrightarrow>
        Status s = RequirementStatusReasonPresent
        \<and> (\<forall>dep \<in> set (Dependents s). depStatus dep = DependentStatusReasonSatisfied))"
proof -
  let ?S = "checkAllPermissions a csv d"
  let ?good = "\<lambda>s. s \<noteq> zeroRequirementStatus \<longrightarrow>
        Status s = RequirementStatusReasonPresent
        \<and> (\<forall>dep \<in> set (Dependents s). depStatus dep = DependentStatusReasonSatisfied)"
  have crd: "(\<forall>s \<in> set (map (crdStatus a) (GetAllCRDDescriptions csv)). ?good s)
      \<longleftrightarrow> list_all (\<lambda>r. Status (crdStatus a r) = RequirementStatusReasonPresent)
            (GetAllCRDDescriptions csv)"
  proof -
    have "crdStatus a r \<noteq> zeroRequirementStatus" for r
      by (metis crdStatus_fields(1) Kind_zero list.distinct(1))
    then show ?thesis by (simp add: list_all_iff)
  qed
  have api: "(\<forall>s \<in> set (map (apiStatus a) (GetAllAPIServiceDescriptions csv)). ?good s)
      \<longleftrightarrow> list_all (\<lambda>r. Status (apiStatus a r) = RequirementStatusReasonPresent)
            (GetAllAPIServiceDescriptions csv)"
  proof -
    have "apiStatus a r \<noteq> zeroRequirementStatus" for r
      by (metis apiStatus_fields(1) Kind_zero list.distinct(1))
    then show ?thesis by (simp add: list_all_iff)
  qed
  have zeros: "\<forall>s \<in> set (replicate (length (snd ?S)) zeroRequirementStatus). ?good s"
    by simp
  have ids: "(\<forall>s \<in> set (rangeValues (snd ?S) order). ?good s) \<longleftrightarrow> fst ?S"
  proof -
    have nz: "status \<noteq> zeroRequirementStatus" if "map_of (snd ?S) k = Some status" for k status
    proof -
      from that entryInvariant_checkAllPermissions [of a csv d]
      have "Kind status = ''ServiceAccount''"
        by (simp add: entryInvariant_def)
      then show ?thesis by (metis Kind_zero list.distinct(1))
    qed
    have "(\<forall>s \<in> set (rangeValues (snd ?S) order). ?good s)
        \<longleftrightarrow> (\<forall>k status. map_of (snd ?S) k = Some status \<longrightarrow> statusMet status)"
      using nz by (auto simp: set_rangeValues [OF order] statusMet_def list_all_iff)
    also have "\<dots> \<longleftrightarrow> fst ?S"
      using metInvariant_checkAllPermissions [OF marshal, of csv d]
      by (simp add: metInvariant_def)
    finally show ?thesis .
  qed
  have "(\<forall>s \<in> set (snd (requirementStatus a csv order)). ?good s)
      \<longleftrightarrow> (\<forall>s \<in> set (map (crdStatus a) (GetAllCRDDescriptions csv)). ?good s)
        \<and> (\<forall>s \<in> set (map (apiStatus a) (GetAllAPIServiceDescriptions csv)). ?good s)
        \<and> (\<forall>s \<in> set (replicate (length (snd ?S)) zeroRequirementStatus). ?good s)
        \<and> (\<forall>s \<in> set (rangeValues (snd ?S) order). ?good s)"
    unfolding requirementStatus_deployment [OF dep] snd_conv set_append by blast
  also have "\<dots> \<longleftrightarrow> fst (requirementStatus a csv order)"
    unfolding crd api ids using zeros
    by (simp add: requirementStatus_deployment [OF dep])
  finally show ?thesis by simp
qed

theorem requirementStatus_met_iff_witness:
  "rangeOrder (snd (checkAllPermissions (ex_operator ex_merge) (ex_csv ''deployment'') ex_merge))
     [''sa-a'']
   \<and> fst (requirementStatus (ex_operator ex_merge) (ex_csv ''deployment'') [''sa-a''])
   \<and> list_all (\<lambda>s. s = zeroRequirementStatus
          \<or> Status s = RequirementStatusReasonPresent
            \<and> list_all (\<lambda>dep. depStatus dep = DependentStatusReasonSatisfied) (Dependents s))
        (snd (requirementStatus (ex_operator ex_merge) (ex_csv ''deployment'') [''sa-a'']))"
proof -
  have d: "UnmarshalStrategy (ex_operator ex_merge) (InstallStrategy (ex_csv ''deployment''))
      = Inr (Deployment ex_merge)"
    by (simp add: ex_operator_def ex_csv_def)
  have m: "\<exists>marshalled. json_Marshal (ex_operator ex_merge) rule = Inr marshalled" for rule
    by (simp add: ex_operator_def)
  have r: "rangeOrder (snd (checkAllPermissions (ex_operator ex_merge) (ex_csv ''deployment'')
      ex_merge)) [''sa-a'']"
    by (simp add: ex_merge_pass rangeOrder_def)
  have f: "fst (requirementStatus (ex_operator ex_merge) (ex_csv ''deployment'') [''sa-a''])"
    by (simp add: requirementStatus_deployment [OF d] ex_merge_pass)
  from requirementStatus_met_iff [OF d m r] f r show ?thesis
    by (auto simp: list_all_iff)
qed

text \<open>The claim as stated fails in both directions: with a strategy that does not decode
  and no other requirement, \<open>met\<close> is false over an empty sequence; with one satisfied
  grant, \<open>met\<close> is true while the sequence starts with a zero-valued status.\<close>

theorem requirementStatus_met_iff_counterexample:
  "\<not> (fst (requirementStatus (ex_operator ex_one) (ex_csv ''helm'') []) \<longleftrightarrow>
       (\<forall>s \<in> set (snd (requirementStatus (ex_operator ex_one) (ex_csv ''helm'') [])).
          Status s = RequirementStatusReasonPresent
          \<and> (\<forall>dep \<in> set (Dependents s). depStatus dep = DependentStatusReasonSatisfied)))
   \<and> \<not> (fst (requirementStatus (ex_operator ex_one) (ex_csv ''deployment'') [''sa-a'']) \<longleftrightarrow>
       (\<forall>s \<in> set (snd (requirementStatus (ex_operator ex_one) (ex_csv ''deployment'') [''sa-a''])).
          Status s = RequirementStatusReasonPresent
          \<and> (\<forall>dep \<in> set (Dependents s). depStatus dep = DependentStatusReasonSatisfied)))"
proof -
  have a: "requirementStatus (ex_operator ex_one) (ex_csv ''helm'') [] = (False, [])"
    by (simp add: requirementStatus_split permissionStatus_def ex_operator_def ex_csv_def)
  show ?thesis
    by (simp add: a ex_one_result zeroRequirementStatus_def RequirementStatusReasonPresent_def)
qed

text \<open>
  C2. For a workload whose install strategy decodes to the deployment variant, the
  ServiceAccount statuses of the returned sequence carry, up to order, exactly the
  distinct service-account names of the two permission lists, each once; and the
  dependents of the status of a name are what the grants of that name contribute, those
  of the namespaced list first and then those of the cluster-wide list, each in the order
  of its list.
\<close>

theorem identity_statuses_merged:
  assumes dep: "UnmarshalStrategy a (InstallStrategy csv) = Inr (Deployment d)"
    and order: "rangeOrder (snd (checkAllPermissions a csv d)) order"
  shows "mset (map Name (filter (\<lambda>s. Kind s = ''ServiceAccount'')
                 (snd (requirementStatus a csv order))))
      = mset (remdups (map ServiceAccountName (Permissions d @ ClusterPermissions d)))
   \<and> (\<forall>s \<in> set (snd (requirementStatus a csv order)). Kind s = ''ServiceAccount'' \<longrightarrow>
        Dependents s =
          concat (map (grantDependents a csv (GetNamespace csv))
            (filter (\<lambda>perm. ServiceAccountName perm = Name s) (Permissions d)))
          @ concat (map (grantDependents a csv NamespaceAll)
            (filter (\<lambda>perm. ServiceAccountName perm = Name s) (ClusterPermissions d))))"
proof -
  let ?S = "snd (checkAllPermissions a csv d)"
  have inv: "entryInvariant ?S"
    by (rule entryInvariant_checkAllPermissions)
  have entry: "Kind s = ''ServiceAccount'' \<and> map_of ?S (Name s) = Some s"
    if "s \<in> set (rangeValues ?S order)" for s
    using that inv by (auto simp: set_rangeValues [OF order] entryInvariant_def)
  have sa: "filter (\<lambda>s. Kind s = ''ServiceAccount'') (snd (requirementStatus a csv order))
      = rangeValues ?S order"
    using entry by (simp add: requirementStatus_deployment [OF dep] filter_id_conv)
  have names: "map Name (rangeValues ?S order) = order"
  proof -
    have "Name (the (map_of ?S k)) = k" if "k \<in> set order" for k
    proof -
      from that have "k \<in> fst ` set ?S"
        by (simp add: rangeOrder_keys(1) [OF order])
      then obtain v where "map_of ?S k = Some v"
        by (metis map_of_eq_None_iff not_None_eq)
      with inv show ?thesis by (simp add: entryInvariant_def)
    qed
    then show ?thesis
      by (simp add: rangeValues_map [OF order] map_idI)
  qed
  have "mset order = mset (map fst ?S)"
    using order by (simp add: rangeOrder_def)
  also have "\<dots> = mset (remdups (map ServiceAccountName (Permissions d @ ClusterPermissions d)))"
  proof -
    have "distinct (map fst ?S)"
      using inv by (simp add: entryInvariant_def)
    moreover have "set (map fst ?S)
        = set (remdups (map ServiceAccountName (Permissions d @ ClusterPermissions d)))"
      by (simp add: keys_checkAllPermissions image_Un)
    ultimately show ?thesis
      by (metis distinct_remdups set_eq_iff_mset_eq_distinct)
  qed
  finally have one: "mset (map Name (filter (\<lambda>s. Kind s = ''ServiceAccount'')
                 (snd (requirementStatus a csv order))))
      = mset (remdups (map ServiceAccountName (Permissions d @ ClusterPermissions d)))"
    by (simp add: sa names)
  have deps: "Dependents s =
          concat (map (grantDependents a csv (GetNamespace csv))
            (filter (\<lambda>perm. ServiceAccountName perm = Name s) (Permissions d)))
          @ concat (map (grantDependents a csv NamespaceAll)
            (filter (\<lambda>perm. ServiceAccountName perm = Name s) (ClusterPermissions d)))"
    if "s \<in> set (snd (requirementStatus a csv order))" "Kind s = ''ServiceAccount''" for s
  proof -
    from that have "s \<in> set (filter (\<lambda>s. Kind s = ''ServiceAccount'')
        (snd (requirementStatus a csv order)))"
      by simp
    then have "s \<in> set (rangeValues ?S order)"
      by (simp only: sa)
    then have "map_of ?S (Name s) = Some s"
      using entry by blast
    then have "Dependents s = entryDependents ?S (Name s)"
      by (simp add: entryDependents_def)
    then show ?thesis
      by (simp add: entryDependents_checkAllPermissions)
  qed
  from one deps show ?thesis by blast
qed

theorem identity_statuses_merged_witness:
  "map (\<lambda>s. (Name s, map depMessage (Dependents s)))
     (filter (\<lambda>s. Kind s = ''ServiceAccount'')
        (snd (requirementStatus (ex_operator ex_both) (ex_csv ''deployment'')
           [''sa-b'', ''sa-a''])))
     = [(''sa-b'', [''rule raw:watch'']), (''sa-a'', [''rule raw:get'', ''rule raw:list''])]
   \<and> mset (map Name (filter (\<lambda>s. Kind s = ''ServiceAccount'')
        (snd (requirementStatus (ex_operator ex_both) (ex_csv ''deployment'')
           [''sa-b'', ''sa-a'']))))
     = mset (remdups (map ServiceAccountName (Permissions ex_both @ ClusterPermissions ex_both)))"
proof -
  have d: "UnmarshalStrategy (ex_operator ex_both) (InstallStrategy (ex_csv ''deployment''))
      = Inr (Deployment ex_both)"
    by (simp add: ex_operator_def ex_csv_def)
  have r: "rangeOrder (snd (checkAllPermissions (ex_operator ex_both) (ex_csv ''deployment'')
      ex_both)) [''sa-b'', ''sa-a'']"
    by (simp add: rangeOrder_def ex_both_keys)
  have v: "map (\<lambda>s. (Name s, map depMessage (Dependents s)))
     (filter (\<lambda>s. Kind s = ''ServiceAccount'')
        (snd (requirementStatus (ex_operator ex_both) (ex_csv ''deployment'')
           [''sa-b'', ''sa-a''])))
     = [(''sa-b'', [''rule raw:watch'']), (''sa-a'', [''rule raw:get'', ''rule raw:list''])]"
    by (simp add: eval_defs ex_both_def)
  have m: "mset (map Name (filter (\<lambda>s. Kind s = ''ServiceAccount'')
        (snd (requirementStatus (ex_operator ex_both) (ex_csv ''deployment'')
           [''sa-b'', ''sa-a'']))))
     = mset (remdups (map ServiceAccountName (Permissions ex_both @ ClusterPermissions ex_both)))"
    by (rule conjunct1 [OF identity_statuses_merged [OF d r]])
  show ?thesis
    by (rule conjI [OF v m])
qed

text \<open>
  C3, as amended. A workload whose install strategy decodes to the deployment variant
  and which declares no type-definition requirement, no service-extension requirement
  and no identity grant in either list is reported as met, with an empty status
  sequence, whatever order the runtime picks for the (empty) map.
\<close>

theorem requirementStatus_no_requirements:
  assumes "GetAllCRDDescriptions csv = []"
    and "GetAllAPIServiceDescriptions csv = []"
    and "UnmarshalStrategy a (InstallStrategy csv) = Inr (Deployment d)"
    and "Permissions d = []"
    and "ClusterPermissions d = []"
  shows "requirementStatus a csv order = (True, [])"
  using assms
  by (simp add: requirementStatus_split permissionStatus_def checkAllPermissions_def
      checkPermissions_def rangeValues_def fold_snoc List.map_filter_def)

text \<open>The claim without the restriction to the deployment variant fails: a workload
  with no requirement at all whose strategy does not decode is reported as not met.\<close>

theorem requirementStatus_no_requirements_counterexample:
  "GetAllCRDDescriptions (ex_csv ''helm'') = []
   \<and> GetAllAPIServiceDescriptions (ex_csv ''helm'') = []
   \<and> UnmarshalStrategy (ex_operator \<lparr>Permissions = [], ClusterPermissions = []\<rparr>)
       (InstallStrategy (ex_csv ''helm'')) = Inl (Error ''unrecognized install strategy'')
   \<and> requirementStatus (ex_operator \<lparr>Permissions = [], ClusterPermissions = []\<rparr>)
       (ex_csv ''helm'') [] = (False, [])
   \<and> requirementStatus (ex_operator \<lparr>Permissions = [], ClusterPermissions = []\<rparr>)
       (ex_csv ''helm'') [] \<noteq> (True, [])"
  by (simp add: requirementStatus_split permissionStatus_def ex_operator_def ex_csv_def)

theorem requirementStatus_no_requirements_witness:
  "requirementStatus (ex_operator \<lparr>Permissions = [], ClusterPermissions = []\<rparr>)
       (ex_csv ''deployment'') [] = (True, [])"
  by (rule requirementStatus_no_requirements
        [where d = "\<lparr>Permissions = [], ClusterPermissions = []\<rparr>"])
     (simp_all add: ex_operator_def ex_csv_def)

text \<open>
  C4, as amended. The returned sequence is the statuses of the type-definition
  requirements in their order, then those of the service-extension requirements in
  their order, then what \<open>permissionStatus\<close> returns; for the deployment variant, the
  ServiceAccount statuses in that last part are the entries of the map, in the order
  the runtime enumerates it.
\<close>

theorem requirementStatus_order:
  "snd (requirementStatus a csv order)
     = map (crdStatus a) (GetAllCRDDescriptions csv)
       @ map (apiStatus a) (GetAllAPIServiceDescriptions csv)
       @ snd (permissionStatus a csv order)
   \<and> (UnmarshalStrategy a (InstallStrategy csv) = Inr (Deployment d)
        \<and> rangeOrder (snd (checkAllPermissions a csv d)) order
      \<longrightarrow> mset (filter (\<lambda>s. Kind s = ''ServiceAccount'') (snd (permissionStatus a csv order)))
          = mset (map snd (snd (checkAllPermissions a csv d))))"
proof (intro conjI impI)
  show "snd (requirementStatus a csv order)
     = map (crdStatus a) (GetAllCRDDescriptions csv)
       @ map (apiStatus a) (GetAllAPIServiceDescriptions csv)
       @ snd (permissionStatus a csv order)"
    by (simp add: requirementStatus_split)
next
  let ?S = "snd (checkAllPermissions a csv d)"
  assume h: "UnmarshalStrategy a (InstallStrategy csv) = Inr (Deployment d)
        \<and> rangeOrder ?S order"
  then have dep: "UnmarshalStrategy a (InstallStrategy csv) = Inr (Deployment d)"
    and order: "rangeOrder ?S order"
    by simp_all
  have inv: "entryInvariant ?S"
    by (rule entryInvariant_checkAllPermissions)
  have "Kind s = ''ServiceAccount''" if "s \<in> set (rangeValues ?S order)" for s
    using that inv by (auto simp: set_rangeValues [OF order] entryInvariant_def)
  then have "filter (\<lambda>s. Kind s = ''ServiceAccount'') (snd (permissionStatus a csv order))
      = rangeValues ?S order"
    by (simp add: permissionStatus_deployment [OF dep] filter_id_conv)
  moreover have "mset (rangeValues ?S order) = mset (map snd ?S)"
    using inv by (intro mset_rangeValues [OF order]) (simp add: entryInvariant_def)
  ultimately show "mset (filter (\<lambda>s. Kind s = ''ServiceAccount'')
        (snd (permissionStatus a csv order))) = mset (map snd ?S)"
    by simp
qed

theorem requirementStatus_order_witness:
  "map Kind (snd (requirementStatus (ex_operator ex_both)
       ((ex_csv ''deployment'')\<lparr>GetAllCRDDescriptions := [\<lparr>CRD_Name = ''crd-a''\<rparr>]\<rparr>)
       [''sa-b'', ''sa-a'']))
     = [''CustomResourceDefinition'', [], [], ''ServiceAccount'', ''ServiceAccount'']
   \<and> mset (filter (\<lambda>s. Kind s = ''ServiceAccount'')
       (snd (permissionStatus (ex_operator ex_both) (ex_csv ''deployment'') [''sa-b'', ''sa-a''])))
     = mset (map snd (snd (checkAllPermissions (ex_operator ex_both) (ex_csv ''deployment'')
         ex_both)))"
proof -
  have d: "UnmarshalStrategy (ex_operator ex_both) (InstallStrategy (ex_csv ''deployment''))
      = Inr (Deployment ex_both)"
    by (simp add: ex_operator_def ex_csv_def)
  have k: "rangeOrder (snd (checkAllPermissions (ex_operator ex_both) (ex_csv ''deployment'')
      ex_both)) [''sa-b'', ''sa-a'']"
    by (simp add: rangeOrder_def ex_both_keys)
  have v: "map Kind (snd (requirementStatus (ex_operator ex_both)
       ((ex_csv ''deployment'')\<lparr>GetAllCRDDescriptions := [\<lparr>CRD_Name = ''crd-a''\<rparr>]\<rparr>)
       [''sa-b'', ''sa-a'']))
     = [''CustomResourceDefinition'', [], [], ''ServiceAccount'', ''ServiceAccount'']"
    by (simp add: eval_defs ex_both_def crdStep_def crdStatus_def)
  have m: "mset (filter (\<lambda>s. Kind s = ''ServiceAccount'')
       (snd (permissionStatus (ex_operator ex_both) (ex_csv ''deployment'') [''sa-b'', ''sa-a''])))
     = mset (map snd (snd (checkAllPermissions (ex_operator ex_both) (ex_csv ''deployment'')
         ex_both)))"
    by (rule mp [OF conjunct2 [OF requirementStatus_order] conjI [OF d k]])
  show ?thesis
    by (rule conjI [OF v m])
qed

text \<open>The identity statuses need not come in the order of first encounter: with grants
  for \<open>sa-a\<close>, \<open>sa-b\<close>, \<open>sa-a\<close> and the enumeration \<open>sa-b\<close>, \<open>sa-a\<close> of the map, the
  names of the returned statuses are two empty ones, \<open>sa-b\<close>, \<open>sa-a\<close>.\<close>

theorem requirementStatus_order_counterexample:
  "map ServiceAccountName (Permissions ex_both @ ClusterPermissions ex_both)
     = [''sa-a'', ''sa-b'', ''sa-a'']
   \<and> rangeOrder (snd (checkAllPermissions (ex_operator ex_both) (ex_csv ''deployment'') ex_both))
       [''sa-b'', ''sa-a'']
   \<and> map Name (snd (requirementStatus (ex_operator ex_both) (ex_csv ''deployment'')
         [''sa-b'', ''sa-a''])) = [[], [], ''sa-b'', ''sa-a'']
   \<and> snd (requirementStatus (ex_operator ex_both) (ex_csv ''deployment'') [''sa-b'', ''sa-a''])
       \<noteq> map (crdStatus (ex_operator ex_both)) (GetAllCRDDescriptions (ex_csv ''deployment''))
         @ map (apiStatus (ex_operator ex_both))
             (GetAllAPIServiceDescriptions (ex_csv ''deployment''))
         @ map snd (snd (checkAllPermissions (ex_operator ex_both) (ex_csv ''deployment'')
             ex_both))"
proof -
  have p: "map ServiceAccountName (Permissions ex_both @ ClusterPermissions ex_both)
     = [''sa-a'', ''sa-b'', ''sa-a'']"
    by (simp add: ex_both_def ex_grant_def)
  have n: "map Name (snd (requirementStatus (ex_operator ex_both) (ex_csv ''deployment'')
         [''sa-b'', ''sa-a''])) = [[], [], ''sa-b'', ''sa-a'']"
    using arg_cong [OF ex_both_result, of "map (\<lambda>(k, n, r). n)"]
    by (simp add: comp_def)
  have k: "rangeOrder (snd (checkAllPermissions (ex_operator ex_both) (ex_csv ''deployment'')
      ex_both)) [''sa-b'', ''sa-a'']"
    by (simp add: rangeOrder_def ex_both_keys)
  have ne: "snd (requirementStatus (ex_operator ex_both) (ex_csv ''deployment'')
         [''sa-b'', ''sa-a''])
       \<noteq> map (crdStatus (ex_operator ex_both)) (GetAllCRDDescriptions (ex_csv ''deployment''))
         @ map (apiStatus (ex_operator ex_both))
             (GetAllAPIServiceDescriptions (ex_csv ''deployment''))
         @ map snd (snd (checkAllPermissions (ex_operator ex_both) (ex_csv ''deployment'')
             ex_both))"
  proof
    assume "snd (requirementStatus (ex_operator ex_both) (ex_csv ''deployment'')
         [''sa-b'', ''sa-a''])
       = map (crdStatus (ex_operator ex_both)) (GetAllCRDDescriptions (ex_csv ''deployment''))
         @ map (apiStatus (ex_operator ex_both))
             (GetAllAPIServiceDescriptions (ex_csv ''deployment''))
         @ map snd (snd (checkAllPermissions (ex_operator ex_both) (ex_csv ''deployment'')
             ex_both))"
    then have "length (map Name (snd (requirementStatus (ex_operator ex_both)
          (ex_csv ''deployment'') [''sa-b'', ''sa-a''])))
        = length (map fst (snd (checkAllPermissions (ex_operator ex_both)
          (ex_csv ''deployment'') ex_both)))"
      by simp
    then show False
      by (simp only: n ex_both_keys) simp
  qed
  show ?thesis
    by (rule conjI [OF p conjI [OF k conjI [OF n ne]]])
qed

text \<open>
  C5. When the install strategy fails to unmarshal, or decodes to a strategy other than
  the deployment variant, \<open>permissionStatus\<close> returns \<open>met = false\<close> with no statuses;
  it has no error result, and \<open>requirementStatus\<close> still returns: not met, with the
  statuses of the type-definition and service-extension requirements only.
\<close>

theorem permissionStatus_fail_closed:
  assumes "(\<exists>err. UnmarshalStrategy a (InstallStrategy csv) = Inl err)
     \<or> UnmarshalStrategy a (InstallStrategy csv) = Inr OtherStrategy"
  shows "permissionStatus a csv order = (False, [])
     \<and> requirementStatus a csv order =
         (False, map (crdStatus a) (GetAllCRDDescriptions csv)
                 @ map (apiStatus a) (GetAllAPIServiceDescriptions csv))"
  using assms by (simp add: requirementStatus_split permissionStatus_not_deployment)

theorem permissionStatus_fail_closed_witness:
  "UnmarshalStrategy (ex_operator \<lparr>Permissions = [], ClusterPermissions = []\<rparr>)
       (InstallStrategy (ex_csv ''helm'')) = Inl (Error ''unrecognized install strategy'')
   \<and> permissionStatus (ex_operator \<lparr>Permissions = [], ClusterPermissions = []\<rparr>)
       (ex_csv ''helm'') [] = (False, [])
   \<and> requirementStatus (ex_operator \<lparr>Permissions = [], ClusterPermissions = []\<rparr>)
       (ex_csv ''helm'') [] = (False, [])"
proof -
  have u: "UnmarshalStrategy (ex_operator \<lparr>Permissions = [], ClusterPermissions = []\<rparr>)
       (InstallStrategy (ex_csv ''helm'')) = Inl (Error ''unrecognized install strategy'')"
    by (simp add: ex_operator_def ex_csv_def)
  have c: "GetAllCRDDescriptions (ex_csv ''helm'') = []"
    "GetAllAPIServiceDescriptions (ex_csv ''helm'') = []"
    by (simp_all add: ex_csv_def)
  from u have h: "(\<exists>err. UnmarshalStrategy (ex_operator \<lparr>Permissions = [], ClusterPermissions = []\<rparr>)
       (InstallStrategy (ex_csv ''helm'')) = Inl err)
     \<or> UnmarshalStrategy (ex_operator \<lparr>Permissions = [], ClusterPermissions = []\<rparr>)
       (InstallStrategy (ex_csv ''helm'')) = Inr OtherStrategy"
    by blast
  show ?thesis
    using permissionStatus_fail_closed [OF h, of "[]"] u c by simp
qed

text \<open>
  C6. In a state \<open>s\<close> of an evaluation pass: a grant for a name not yet in the map
  stores a status that is Present or a downgrade of it; the status stored for a name,
  after any further grants, is the same or, if it was Present, NotPresent or
  PresentNotSatisfied; and from any state whatever, a status that is not Present is not
  Present after further grants.
\<close>

theorem identity_status_only_downgraded:
  assumes "passState a csv s"
  shows "(map_of (snd s) n = None \<and> ServiceAccountName perm = n \<longrightarrow>
            (\<exists>status'. map_of (snd (checkPermission a csv namespace perm s)) n = Some status'
               \<and> downgraded RequirementStatusReasonPresent (Status status')))
       \<and> (\<forall>status. map_of (snd s) n = Some status \<longrightarrow>
            (\<exists>status'. map_of (snd (checkPermissions a csv permissions namespace s)) n
                 = Some status'
               \<and> downgraded (Status status) (Status status')))
       \<and> (\<forall>status. map_of (snd s0) n = Some status
              \<and> Status status \<noteq> RequirementStatusReasonPresent \<longrightarrow>
            (\<exists>status'. map_of (snd (checkPermissions a csv permissions namespace s0)) n
                 = Some status'
               \<and> Status status' \<noteq> RequirementStatusReasonPresent))"
proof (intro conjI impI allI)
  assume "map_of (snd s) n = None \<and> ServiceAccountName perm = n"
  then show "\<exists>status'. map_of (snd (checkPermission a csv namespace perm s)) n = Some status'
      \<and> downgraded RequirementStatusReasonPresent (Status status')"
    by (simp add: first_grant_status)
next
  fix status
  assume "map_of (snd s) n = Some status"
  with assms show "\<exists>status'. map_of (snd (checkPermissions a csv permissions namespace s)) n
        = Some status' \<and> downgraded (Status status) (Status status')"
    by (rule downgraded_checkPermissions)
next
  fix status
  assume "map_of (snd s0) n = Some status
      \<and> Status status \<noteq> RequirementStatusReasonPresent"
  then show "\<exists>status'. map_of (snd (checkPermissions a csv permissions namespace s0)) n
        = Some status' \<and> Status status' \<noteq> RequirementStatusReasonPresent"
    by (simp add: never_Present_again)
qed

theorem identity_status_only_downgraded_witness:
  "passState (ex_operator ex_two) (ex_csv ''deployment'')
     (checkPermission (ex_operator ex_two) (ex_csv ''deployment'') ''olm''
        (ex_grant ''sa-b'' [''list'']) (True, []))
   \<and> (\<exists>status'.
        map_of (snd (checkPermissions (ex_operator ex_two) (ex_csv ''deployment'')
           [ex_grant ''sa-b'' [''get'']] []
           (checkPermission (ex_operator ex_two) (ex_csv ''deployment'') ''olm''
              (ex_grant ''sa-b'' [''list'']) (True, [])))) ''sa-b'' = Some status'
        \<and> Status status' = RequirementStatusReasonPresentNotSatisfied)"
proof -
  let ?s = "checkPermission (ex_operator ex_two) (ex_csv ''deployment'') ''olm''
        (ex_grant ''sa-b'' [''list'']) (True, [])"
  have p: "passState (ex_operator ex_two) (ex_csv ''deployment'') ?s"
    by (rule passState.grant [OF passState.start])
  have e: "map_of (snd ?s) ''sa-b'' = Some
          \<lparr>Group = [], Version = ''v1'', Kind = ''ServiceAccount'', Name = ''sa-b'',
           Status = ''PresentNotSatisfied'', Message = [], UUID = [],
           Dependents = [\<lparr>depGroup = ''rbac.authorization.k8s.io'', depVersion = ''v1beta1'',
              depKind = ''PolicyRule'', depStatus = ''NotSatisfied'', depUUID = [],
              depMessage = ''rule raw:list''\<rparr>]\<rparr>"
    by (simp add: ex_downgraded_state)
  from identity_status_only_downgraded [OF p, where n = "''sa-b''"
      and permissions = "[ex_grant ''sa-b'' [''get'']]" and namespace = "[]"] e
  have "\<exists>status'.
        map_of (snd (checkPermissions (ex_operator ex_two) (ex_csv ''deployment'')
           [ex_grant ''sa-b'' [''get'']] [] ?s)) ''sa-b'' = Some status'
        \<and> downgraded ''PresentNotSatisfied'' (Status status')"
    by auto
  then have "\<exists>status'.
        map_of (snd (checkPermissions (ex_operator ex_two) (ex_csv ''deployment'')
           [ex_grant ''sa-b'' [''get'']] [] ?s)) ''sa-b'' = Some status'
        \<and> Status status' = RequirementStatusReasonPresentNotSatisfied"
    by (simp add: downgraded_def RequirementStatusReasonPresent_def
        RequirementStatusReasonPresentNotSatisfied_def)
  with p show ?thesis by (rule conjI)
qed

text \<open>
  C7. With a field selector that \<open>nameFor\<close> accepts, giving the name filter \<open>name\<close>,
  \<open>List\<close> returns the provider's collection for the requested namespace with its items
  cut down, in their order, to the records whose labels the label selector matches (an
  absent selector matches all), whose name is \<open>name\<close> unless \<open>name\<close> is empty, and
  whose own namespace is the requested one unless that is the all-namespaces value.
  When the provider call fails, \<open>List\<close> returns an empty collection and that error.
\<close>

theorem List_returns_matching_records:
  assumes "nameFor (FieldSelector opts) = Inr (name, None)"
  shows "(prov_List (prov m) (NamespaceValue ctx) = Inr res \<longrightarrow>
            List m ctx (Some opts) =
              Inr (Some (res\<lparr>Items :=
                     filter (\<lambda>r. (case LabelSelector opts of None \<Rightarrow> True
                                    | Some ls \<Rightarrow> ls (GetLabels r))
                                \<and> (name = [] \<or> GetName r = name)
                                \<and> (NamespaceValue ctx = NamespaceAll
                                     \<or> GetNamespace r = NamespaceValue ctx))
                       (Items res)\<rparr>), None))
       \<and> (prov_List (prov m) (NamespaceValue ctx) = Inl err \<longrightarrow>
            List m ctx (Some opts) = Inr (Some \<lparr>ListMeta = [], Items = []\<rparr>, Some err))"
proof -
  have m: "matches r name (NamespaceValue ctx)
             (case LabelSelector opts of None \<Rightarrow> labels_Everything | Some ls \<Rightarrow> ls)
           \<longleftrightarrow> (case LabelSelector opts of None \<Rightarrow> True | Some ls \<Rightarrow> ls (GetLabels r))
                \<and> (name = [] \<or> GetName r = name)
                \<and> (NamespaceValue ctx = NamespaceAll \<or> GetNamespace r = NamespaceValue ctx)"
    for r
    by (auto simp: matches_def labels_Everything_def split: option.split)
  show ?thesis
    using assms by (simp add: List_def Let_def m)
qed

theorem List_returns_matching_records_witness:
  "nameFor (FieldSelector (ex_options (Some (ex_hasTerm ''metadata.name'' ''pkg-a''))))
     = Inr (''pkg-a'', None)
   \<and> List ex_storage (Some ''ns1'') (Some (ex_options (Some (ex_hasTerm ''metadata.name'' ''pkg-a''))))
     = Inr (Some \<lparr>ListMeta = ''rv1'', Items = [ex_manifest ''pkg-a'' ''ns1'' ''stable'']\<rparr>, None)
   \<and> List ex_storage (Some ''broken'') (Some (ex_options (Some (ex_hasTerm ''metadata.name'' ''pkg-a''))))
     = Inr (Some \<lparr>ListMeta = [], Items = []\<rparr>, Some (Error ''provider down''))"
proof -
  have n: "nameFor (FieldSelector (ex_options (Some (ex_hasTerm ''metadata.name'' ''pkg-a''))))
     = Inr (''pkg-a'', None)"
    by (simp add: nameFor_def ex_options_def ex_hasTerm_def)
  show ?thesis
    using n
      List_returns_matching_records [OF n, of ex_storage "Some ''ns1''"
        "\<lparr>ListMeta = ''rv1'', Items = [ex_manifest ''pkg-a'' ''ns1'' ''stable'',
            ex_manifest ''pkg-b'' ''ns1'' ''stable'', ex_manifest ''pkg-a'' ''ns2'' ''alpha'']\<rparr>"
        "Error ''provider down''"]
      List_returns_matching_records [OF n, of ex_storage "Some ''broken''"
        "\<lparr>ListMeta = [], Items = []\<rparr>" "Error ''provider down''"]
    by (simp add: ex_storage_def ex_options_def ex_manifest_def NamespaceValue_def NamespaceAll_def)
qed

text \<open>
  C8. Let \<open>fs\<close> be the field selector of the options (\<open>fields.Everything()\<close> when it
  is absent). If \<open>fs\<close> is not empty, with first requirement \<open>r\<close>, and does not require
  an exact match on \<open>metadata.name\<close>, then \<open>List\<close> and \<open>Watch\<close> both return no object
  and the error \<open>field label not supported: \<close> followed by the field of \<open>r\<close>. If \<open>fs\<close>
  requires an exact match on \<open>metadata.name\<close>, or is empty, or is absent, \<open>nameFor\<close>
  returns no error, \<open>List\<close> does not take its error return for the filter and \<open>Watch\<close>
  returns a watcher.
\<close>

theorem unsupported_field_selector:
  assumes "fs = (case FieldSelector opts of None \<Rightarrow> fields_Everything | Some s \<Rightarrow> s)"
  shows "(\<not> Empty fs \<and> \<not> snd (RequiresExactMatch fs ''metadata.name'')
            \<and> Requirements fs = r # rest \<longrightarrow>
            List m ctx (Some opts)
              = Inr (None, Some (Error (''field label not supported: '' @ Field r)))
            \<and> Watch m ctx (Some opts)
              = Inr (None, Some (Error (''field label not supported: '' @ Field r))))
       \<and> (snd (RequiresExactMatch fs ''metadata.name'') \<or> Empty fs \<or> FieldSelector opts = None
            \<longrightarrow>
            (\<exists>name. nameFor (FieldSelector opts) = Inr (name, None))
            \<and> (\<forall>e. List m ctx (Some opts) \<noteq> Inr (None, Some e))
            \<and> (\<exists>w. Watch m ctx (Some opts) = Inr (Some w, None)))"
proof -
  have e: "Empty fields_Everything" "\<not> snd (RequiresExactMatch fields_Everything f)" for f
    by (simp_all add: fields_Everything_def)
  have bad: "nameFor (FieldSelector opts)
               = Inr ([], Some (Error (''field label not supported: '' @ Field r)))"
    if "\<not> Empty fs" "\<not> snd (RequiresExactMatch fs ''metadata.name'')"
      "Requirements fs = r # rest"
    using that assms
    by (cases "FieldSelector opts")
       (auto simp: nameFor_def e Let_def split: prod.split)
  have good: "\<exists>name. nameFor (FieldSelector opts) = Inr (name, None)"
    if "snd (RequiresExactMatch fs ''metadata.name'') \<or> Empty fs \<or> FieldSelector opts = None"
    using that assms
    by (cases "FieldSelector opts")
       (auto simp: nameFor_def e Let_def split: prod.split)
  show ?thesis
  proof (intro conjI impI)
    assume h: "\<not> Empty fs \<and> \<not> snd (RequiresExactMatch fs ''metadata.name'')
            \<and> Requirements fs = r # rest"
    with bad show "List m ctx (Some opts)
              = Inr (None, Some (Error (''field label not supported: '' @ Field r)))"
      by (simp add: List_def Let_def)
    from h bad show "Watch m ctx (Some opts)
              = Inr (None, Some (Error (''field label not supported: '' @ Field r)))"
      by (simp add: Watch_def Let_def)
  next
    assume h: "snd (RequiresExactMatch fs ''metadata.name'') \<or> Empty fs \<or> FieldSelector opts = None"
    from good [OF h] obtain name where n: "nameFor (FieldSelector opts) = Inr (name, None)" ..
    then show "\<exists>name. nameFor (FieldSelector opts) = Inr (name, None)" ..
    from n show "\<forall>e. List m ctx (Some opts) \<noteq> Inr (None, Some e)"
      by (simp add: List_def Let_def split: sum.split)
    from n show "\<exists>w. Watch m ctx (Some opts) = Inr (Some w, None)"
      by (simp add: Watch_def Let_def)
  qed
qed

theorem unsupported_field_selector_witness:
  "List ex_storage (Some ''ns1'') (Some (ex_options (Some (ex_hasTerm ''spec.channel'' ''beta''))))
     = Inr (None, Some (Error ''field label not supported: spec.channel''))
   \<and> Watch ex_storage (Some ''ns1'') (Some (ex_options (Some (ex_hasTerm ''spec.channel'' ''beta''))))
     = Inr (None, Some (Error ''field label not supported: spec.channel''))
   \<and> nameFor (FieldSelector (ex_options (Some (ex_hasTerm ''metadata.name'' ''pkg-a''))))
     = Inr (''pkg-a'', None)
   \<and> nameFor (FieldSelector (ex_options None)) = Inr ([], None)"
proof -
  have a: "List ex_storage (Some ''ns1'') (Some (ex_options (Some (ex_hasTerm ''spec.channel'' ''beta''))))
     = Inr (None, Some (Error ''field label not supported: spec.channel''))
   \<and> Watch ex_storage (Some ''ns1'') (Some (ex_options (Some (ex_hasTerm ''spec.channel'' ''beta''))))
     = Inr (None, Some (Error ''field label not supported: spec.channel''))"
    using unsupported_field_selector
      [of "ex_hasTerm ''spec.channel'' ''beta''"
          "ex_options (Some (ex_hasTerm ''spec.channel'' ''beta''))"
          "\<lparr>Requirement_Operator = ''='', Field = ''spec.channel'', Value = ''beta''\<rparr>" "[]"
          ex_storage "Some ''ns1''"]
    by (simp add: ex_options_def ex_hasTerm_def)
  have b: "nameFor (FieldSelector (ex_options (Some (ex_hasTerm ''metadata.name'' ''pkg-a''))))
     = Inr (''pkg-a'', None)"
    "nameFor (FieldSelector (ex_options None)) = Inr ([], None)"
    by (simp_all add: nameFor_def ex_options_def ex_hasTerm_def fields_Everything_def)
  from a b show ?thesis by simp
qed

text \<open>
  C9. For a subscription that \<open>Watch\<close> accepts, let \<open>snapshot\<close> be what \<open>List\<close> returns
  for the same request. The events the watcher emits are one Added event per record of
  the snapshot, in order, followed by the events derived from the change feed; they are
  exactly those Added events when the feed delivers nothing.
\<close>

theorem Watch_replays_snapshot_first:
  assumes "List m ctx (Some opts) = Inr (Some snapshot, None)"
    and "Watch m ctx (Some opts) = Inr (Some w, None)"
  shows "Run w feed = map (\<lambda>r. \<lparr>Type = Added, Object = r\<rparr>) (Items snapshot) @ streaming w feed
     \<and> Run w [] = map (\<lambda>r. \<lparr>Type = Added, Object = r\<rparr>) (Items snapshot)
     \<and> take (length (Items snapshot)) (Run w feed)
         = map (\<lambda>r. \<lparr>Type = Added, Object = r\<rparr>) (Items snapshot)"
proof -
  from assms(2) obtain name where
    n: "nameFor (FieldSelector opts) = Inr (name, None)"
    and w: "w = NewWatcher (NamespaceValue ctx) name (ResourceVersion opts)
          (case LabelSelector opts of None \<Rightarrow> labels_Everything | Some ls \<Rightarrow> ls) (prov m)"
    by (auto simp: Watch_def Let_def split: sum.splits prod.splits option.splits)
  from assms(1) n obtain res where
    p: "prov_List (prov m) (NamespaceValue ctx) = Inr res"
    and s: "snapshot = res\<lparr>Items := filter (\<lambda>manifest. matches manifest name (NamespaceValue ctx)
          (case LabelSelector opts of None \<Rightarrow> labels_Everything | Some ls \<Rightarrow> ls)) (Items res)\<rparr>"
    by (auto simp: List_def Let_def split: sum.splits)
  have r: "replay w = map (\<lambda>r. \<lparr>Type = Added, Object = r\<rparr>) (Items snapshot)"
    by (simp add: replay_def w NewWatcher_def p s)
  show ?thesis by (simp add: Run_def r)
qed

theorem Watch_replays_snapshot_first_witness:
  "Run (NewWatcher ''ns1'' ''pkg-a'' [] (\<lambda>labelSet. labelSet ''tier'' = Some ''stable'') (prov ex_storage))
       [Change Modified (ex_manifest ''pkg-a'' ''ns1'' ''stable''),
        Change Added (ex_manifest ''pkg-b'' ''ns1'' ''stable''),
        Cancelled,
        Change Deleted (ex_manifest ''pkg-a'' ''ns1'' ''stable'')]
     = [\<lparr>Type = Added, Object = ex_manifest ''pkg-a'' ''ns1'' ''stable''\<rparr>,
        \<lparr>Type = Modified, Object = ex_manifest ''pkg-a'' ''ns1'' ''stable''\<rparr>]"
proof -
  have l: "List ex_storage (Some ''ns1'') (Some (ex_options (Some (ex_hasTerm ''metadata.name'' ''pkg-a''))))
     = Inr (Some \<lparr>ListMeta = ''rv1'', Items = [ex_manifest ''pkg-a'' ''ns1'' ''stable'']\<rparr>, None)"
    by (simp add: List_def nameFor_def ex_storage_def ex_options_def ex_hasTerm_def
        ex_manifest_def NamespaceValue_def NamespaceAll_def matches_def)
  have w: "Watch ex_storage (Some ''ns1'') (Some (ex_options (Some (ex_hasTerm ''metadata.name'' ''pkg-a''))))
     = Inr (Some (NewWatcher ''ns1'' ''pkg-a'' [] (\<lambda>labelSet. labelSet ''tier'' = Some ''stable'')
         (prov ex_storage)), None)"
    by (simp add: Watch_def nameFor_def ex_options_def ex_hasTerm_def NamespaceValue_def)
  show ?thesis
    using Watch_replays_snapshot_first [OF l w,
        of "[Change Modified (ex_manifest ''pkg-a'' ''ns1'' ''stable''),
             Change Added (ex_manifest ''pkg-b'' ''ns1'' ''stable''),
             Cancelled,
             Change Deleted (ex_manifest ''pkg-a'' ''ns1'' ''stable'')]"]
    by (simp add: NewWatcher_def matches_def ex_manifest_def NamespaceAll_def)
qed

text \<open>
  C10. With a nil \<open>options\<close> pointer both \<open>List\<close> and \<open>Watch\<close> panic on the
  dereference \<open>options.FieldSelector\<close>, whatever the storage and the context are; in
  \<open>List\<close> this happens after the nil-guarded read of the label selector.
\<close>

theorem List_Watch_nil_options_panic:
  "List m ctx None = Inl NilPointerDereference \<and> Watch m ctx None = Inl NilPointerDereference"
  by (simp add: List_def Watch_def)

end
